theory Spec2Isabelle
  imports Main
begin

section \<open>NotebookWatcher (variablesView/notebookWatcher.ts)\<close>

text \<open>
  The watcher keeps a side table of execution counts, one entry per document, and three
  event emitters. Uris are values of an arbitrary type \<open>'u\<close>; notebooks (INotebook) are
  values of an arbitrary type \<open>'n\<close>. The file system's \<open>arePathsSame\<close> and the Uri's
  \<open>toString\<close> belong to the host and are parameters of the functions that call them.
  JavaScript numbers are modelled as integers, \<open>undefined\<close> as \<open>None\<close>.
\<close>

subsection \<open>Data\<close>

record 'u IExecutionCountEntry =
  uri :: 'u
  executionCount :: int

text \<open>
  The enum KernelState and the type KernelStateEventArgs are declared in
  notebookExtensibility.ts; the watcher reads the members \<open>executed\<close> and \<open>restarted\<close>
  and the fields \<open>resource\<close>, \<open>state\<close>, \<open>cell\<close> and \<open>silent\<close>.
\<close>

datatype KernelState = started | executed | restarted

record NotebookCellExecutionSummary =
  executionOrder :: "int option"

record 'u NotebookDocument =
  document_uri :: 'u

record 'u NotebookCell =
  notebook_of_cell :: "'u NotebookDocument"
  executionSummary :: "NotebookCellExecutionSummary option"

record 'u KernelStateEventArgs =
  resource :: 'u
  state :: KernelState
  cell :: "'u NotebookCell option"
  silent :: "bool option"

datatype NotebookCellExecutionState = Idle | Pending | Executing

record 'u NotebookCellExecutionStateChangeEvent =
  changed_cell :: "'u NotebookCell"
  changed_state :: NotebookCellExecutionState

record ('u, 'n) INotebookEditor =
  editor_file :: 'u
  notebook :: "'n option"

record 'u IInteractiveWindow =
  notebookUri :: "'u option"

record 'n IKernel =
  kernel_notebook :: "'n option"

record 'n IActiveNotebookChangedEvent =
  change_notebook :: "'n option"
  change_executionCount :: "int option"

text \<open>
  What the watcher reads from the extension host when an event arrives:
  \<open>notebookEditorProvider.activeEditor\<close>, the document uri of \<open>window.activeTextEditor\<close>,
  \<open>interactiveWindowProvider.get\<close>, \<open>workspace.notebookDocuments\<close> and
  \<open>kernelProvider.get\<close>.
\<close>

record ('u, 'n) host =
  activeEditor :: "('u, 'n) INotebookEditor option"
  activeTextEditor :: "'u option"
  interactiveWindowProvider_get :: "'u \<Rightarrow> 'u IInteractiveWindow option"
  notebookDocuments :: "'u NotebookDocument list"
  kernelProvider_get :: "'u NotebookDocument \<Rightarrow> 'n IKernel option"

text \<open>
  The watcher's own state: the tracker array and, for each emitter, the payloads fired so
  far, oldest first (\<open>onDidRestartActiveNotebook\<close> has no payload, so its fires are counted).
\<close>

record ('u, 'n) NotebookWatcher =
  executionCountTracker :: "'u IExecutionCountEntry list"
  onDidExecuteActiveNotebook :: "int list"
  onDidChangeActiveNotebook :: "'n IActiveNotebookChangedEvent list"
  onDidRestartActiveNotebook :: nat

definition initialWatcher :: "('u, 'n) NotebookWatcher" where
  "initialWatcher =
     \<lparr>executionCountTracker = [], onDidExecuteActiveNotebook = [],
      onDidChangeActiveNotebook = [], onDidRestartActiveNotebook = 0\<rparr>"

subsection \<open>The execution-count tracker\<close>

definition getExecutionCount ::
  "('u \<Rightarrow> 'u \<Rightarrow> bool) \<Rightarrow> 'u IExecutionCountEntry list \<Rightarrow> 'u \<Rightarrow> 'u IExecutionCountEntry option"
where
  "getExecutionCount arePathsSame tracker u = find (\<lambda>value. arePathsSame u (uri value)) tracker"

text \<open>
  \<open>executionCount.executionCount = newValue\<close> assigns to the object that \<open>find\<close> returned,
  which is the first element of the array satisfying the predicate; the array holds that
  same object, so the assignment changes the array's first matching element.
\<close>

fun assignFirst ::
  "('u IExecutionCountEntry \<Rightarrow> bool) \<Rightarrow> int \<Rightarrow> 'u IExecutionCountEntry list
     \<Rightarrow> 'u IExecutionCountEntry list"
where
  "assignFirst P newValue [] = []"
| "assignFirst P newValue (value # rest) =
     (if P value then value\<lparr>executionCount := newValue\<rparr> # rest
      else value # assignFirst P newValue rest)"

definition updateExecutionCount ::
  "('u \<Rightarrow> 'u \<Rightarrow> bool) \<Rightarrow> 'u IExecutionCountEntry list \<Rightarrow> 'u \<Rightarrow> int \<Rightarrow> 'u IExecutionCountEntry list"
where
  "updateExecutionCount arePathsSame tracker u newValue =
     (case getExecutionCount arePathsSame tracker u of
        None \<Rightarrow> tracker @ [\<lparr>uri = u, executionCount = newValue\<rparr>]
      | Some _ \<Rightarrow> assignFirst (\<lambda>value. arePathsSame u (uri value)) newValue tracker)"

definition deleteExecutionCount ::
  "('u \<Rightarrow> 'u \<Rightarrow> bool) \<Rightarrow> 'u IExecutionCountEntry list \<Rightarrow> 'u \<Rightarrow> 'u IExecutionCountEntry list"
where
  "deleteExecutionCount arePathsSame tracker u =
     filter (\<lambda>value. \<not> arePathsSame u (uri value)) tracker"

subsection \<open>The active notebook\<close>

definition getActiveInteractiveWindow :: "('u, 'n) host \<Rightarrow> 'u IInteractiveWindow option" where
  "getActiveInteractiveWindow h =
     (case activeTextEditor h of
        None \<Rightarrow> None
      | Some textDocumentUri \<Rightarrow> interactiveWindowProvider_get h textDocumentUri)"

text \<open>
  \<open>interactiveWindow?.notebookUri?.toString()\<close> is \<open>undefined\<close> when there is no window or
  the window has no notebook uri; a string is never \<open>===\<close> to \<open>undefined\<close>.
\<close>

definition getActiveInteractiveWindowNotebook ::
  "('u \<Rightarrow> string) \<Rightarrow> ('u, 'n) host \<Rightarrow> 'n option"
where
  "getActiveInteractiveWindowNotebook toString h =
     (let interactiveWindow = getActiveInteractiveWindow h in
      case find (\<lambda>notebookDocument.
                   Some (toString (document_uri notebookDocument)) =
                   map_option toString (Option.bind interactiveWindow notebookUri))
                (notebookDocuments h) of
        None \<Rightarrow> None
      | Some notebookDocument \<Rightarrow> Option.bind (kernelProvider_get h notebookDocument) kernel_notebook)"

definition activeNotebook :: "('u \<Rightarrow> string) \<Rightarrow> ('u, 'n) host \<Rightarrow> 'n option" where
  "activeNotebook toString h =
     (case Option.bind (activeEditor h) notebook of
        Some n \<Rightarrow> Some n
      | None \<Rightarrow> getActiveInteractiveWindowNotebook toString h)"

definition activeNotebookExecutionCount ::
  "('u \<Rightarrow> 'u \<Rightarrow> bool) \<Rightarrow> ('u, 'n) host \<Rightarrow> ('u, 'n) NotebookWatcher \<Rightarrow> int option"
where
  "activeNotebookExecutionCount arePathsSame h w =
     (let activeInteractiveWindow = getActiveInteractiveWindow h;
          activeNotebookOrInteractiveWindow =
            (case map_option editor_file (activeEditor h) of
               Some f \<Rightarrow> Some f
             | None \<Rightarrow> Option.bind activeInteractiveWindow notebookUri)
      in case activeNotebookOrInteractiveWindow of
           Some u \<Rightarrow> map_option executionCount
                       (getExecutionCount arePathsSame (executionCountTracker w) u)
         | None \<Rightarrow> None)"

definition isActiveNotebookEvent ::
  "('u \<Rightarrow> 'u \<Rightarrow> bool) \<Rightarrow> ('u, 'n) host \<Rightarrow> 'u KernelStateEventArgs \<Rightarrow> bool"
where
  "isActiveNotebookEvent arePathsSame h kernelStateEvent =
     (if (case activeEditor h of
            None \<Rightarrow> False
          | Some editor \<Rightarrow> arePathsSame (editor_file editor) (resource kernelStateEvent))
      then True
      else (case getActiveInteractiveWindow h of
              None \<Rightarrow> False
            | Some activeInteractiveWindow \<Rightarrow>
                (case notebookUri activeInteractiveWindow of
                   None \<Rightarrow> False
                 | Some nu \<Rightarrow> arePathsSame nu (resource kernelStateEvent))))"

subsection \<open>Event handlers\<close>

text \<open>\<open>kernelStateEvent.cell?.executionSummary?.executionOrder\<close>\<close>

definition cellExecutionOrder :: "'u KernelStateEventArgs \<Rightarrow> int option" where
  "cellExecutionOrder kernelStateEvent =
     Option.bind (Option.bind (cell kernelStateEvent) executionSummary) executionOrder"

text \<open>
  The condition tests the execution order for truthiness: \<open>undefined\<close> and \<open>0\<close> are falsy.
  \<open>!silent\<close> holds when \<open>silent\<close> is \<open>undefined\<close> or \<open>false\<close>.
\<close>

definition isNonSilentExecution :: "'u KernelStateEventArgs \<Rightarrow> bool" where
  "isNonSilentExecution kernelStateEvent =
     (if state kernelStateEvent = executed \<and>
         cell kernelStateEvent \<noteq> None \<and>
         (case cellExecutionOrder kernelStateEvent of None \<Rightarrow> False | Some n \<Rightarrow> n \<noteq> 0) \<and>
         silent kernelStateEvent \<noteq> Some True
      then True else False)"

text \<open>
  \<open>isActiveNotebookEvent\<close> is an async function without an await of its own, so it reads
  the host when it is called, in the same turn as the tracker update. The handler then
  awaits, and when it resumes it tests \<open>kernelStateEvent.cell?.executionSummary?.executionOrder\<close>
  again and reads the payload from it. The cell is a live object of the host, so what is
  read then is an input of its own: \<open>afterAwait\<close> is the event object as it is when the
  handler resumes. The two reads after the await happen in one turn and see the same value.
\<close>

definition handleExecute ::
  "('u \<Rightarrow> 'u \<Rightarrow> bool) \<Rightarrow> ('u, 'n) host \<Rightarrow> ('u, 'n) NotebookWatcher \<Rightarrow> 'u KernelStateEventArgs
     \<Rightarrow> 'u KernelStateEventArgs \<Rightarrow> ('u, 'n) NotebookWatcher"
where
  "handleExecute arePathsSame h w kernelStateEvent afterAwait =
     (if isNonSilentExecution kernelStateEvent then
        let w1 = (case cellExecutionOrder kernelStateEvent of
                    Some n \<Rightarrow> w\<lparr>executionCountTracker :=
                                  updateExecutionCount arePathsSame (executionCountTracker w)
                                    (resource kernelStateEvent) n\<rparr>
                  | None \<Rightarrow> w)
        in (if isActiveNotebookEvent arePathsSame h kernelStateEvent then
              (case cellExecutionOrder afterAwait of
                 Some n \<Rightarrow> w1\<lparr>onDidExecuteActiveNotebook := onDidExecuteActiveNotebook w1 @ [n]\<rparr>
               | None \<Rightarrow> w1)
            else w1)
      else w)"

definition handleRestart ::
  "('u \<Rightarrow> 'u \<Rightarrow> bool) \<Rightarrow> ('u, 'n) host \<Rightarrow> ('u, 'n) NotebookWatcher \<Rightarrow> 'u KernelStateEventArgs
     \<Rightarrow> ('u, 'n) NotebookWatcher"
where
  "handleRestart arePathsSame h w kernelStateEvent =
     (let w1 = w\<lparr>executionCountTracker :=
                  deleteExecutionCount arePathsSame (executionCountTracker w)
                    (resource kernelStateEvent)\<rparr>
      in if isActiveNotebookEvent arePathsSame h kernelStateEvent
         then w1\<lparr>onDidRestartActiveNotebook := Suc (onDidRestartActiveNotebook w1)\<rparr>
         else w1)"

definition notebookEditorClosed ::
  "('u \<Rightarrow> 'u \<Rightarrow> bool) \<Rightarrow> ('u, 'n) NotebookWatcher \<Rightarrow> ('u, 'n) INotebookEditor
     \<Rightarrow> ('u, 'n) NotebookWatcher"
where
  "notebookEditorClosed arePathsSame w editor =
     w\<lparr>executionCountTracker :=
         deleteExecutionCount arePathsSame (executionCountTracker w) (editor_file editor)\<rparr>"

definition activeEditorChanged ::
  "('u \<Rightarrow> 'u \<Rightarrow> bool) \<Rightarrow> ('u, 'n) NotebookWatcher \<Rightarrow> ('u, 'n) INotebookEditor option
     \<Rightarrow> ('u, 'n) NotebookWatcher"
where
  "activeEditorChanged arePathsSame w editor =
     (let changeEvent =
            (case editor of
               None \<Rightarrow> \<lparr>change_notebook = None, change_executionCount = None\<rparr>
             | Some ed \<Rightarrow>
                 \<lparr>change_notebook = notebook ed,
                  change_executionCount =
                    map_option executionCount
                      (getExecutionCount arePathsSame (executionCountTracker w) (editor_file ed))\<rparr>)
      in w\<lparr>onDidChangeActiveNotebook := onDidChangeActiveNotebook w @ [changeEvent]\<rparr>)"

definition kernelStateChanged ::
  "('u \<Rightarrow> 'u \<Rightarrow> bool) \<Rightarrow> ('u, 'n) host \<Rightarrow> ('u, 'n) NotebookWatcher \<Rightarrow> 'u KernelStateEventArgs
     \<Rightarrow> ('u, 'n) NotebookWatcher"
where
  "kernelStateChanged arePathsSame h w kernelStateEvent =
     (case state kernelStateEvent of
        restarted \<Rightarrow> handleRestart arePathsSame h w kernelStateEvent
      | _ \<Rightarrow> w)"

text \<open>
  \<open>isJupyterNotebook\<close> (notebook/helpers/helpers.ts) is a predicate on the cell's notebook
  document and a parameter here. The event object built for \<open>handleExecute\<close> holds the
  live cell; \<open>cellAfterAwait\<close> is that cell as it is when \<open>handleExecute\<close> resumes.
\<close>

definition onDidChangeNotebookCellExecutionState ::
  "('u \<Rightarrow> 'u \<Rightarrow> bool) \<Rightarrow> ('u NotebookDocument \<Rightarrow> bool) \<Rightarrow> ('u, 'n) host
     \<Rightarrow> ('u, 'n) NotebookWatcher \<Rightarrow> 'u NotebookCellExecutionStateChangeEvent
     \<Rightarrow> 'u NotebookCell \<Rightarrow> ('u, 'n) NotebookWatcher"
where
  "onDidChangeNotebookCellExecutionState arePathsSame isJupyterNotebook h w cellStateChange
       cellAfterAwait =
     (if \<not> isJupyterNotebook (notebook_of_cell (changed_cell cellStateChange)) then w
      else if changed_state cellStateChange = Idle then
        handleExecute arePathsSame h w
          \<lparr>resource = document_uri (notebook_of_cell (changed_cell cellStateChange)),
           state = executed,
           cell = Some (changed_cell cellStateChange),
           silent = Some False\<rparr>
          \<lparr>resource = document_uri (notebook_of_cell (changed_cell cellStateChange)),
           state = executed,
           cell = Some cellAfterAwait,
           silent = Some False\<rparr>
      else w)"

subsection \<open>The subscriptions made by the constructor\<close>

datatype ('u, 'n) subscription =
    OnKernelStateChange "'u KernelStateEventArgs"
  | OnDidChangeActiveNotebookEditor "('u, 'n) INotebookEditor option"
  | OnDidCloseNotebookEditor "('u, 'n) INotebookEditor"
  | OnDidRestartKernel 'u
  | OnDidChangeNotebookCellExecutionState "'u NotebookCellExecutionStateChangeEvent"
      "'u NotebookCell"

text \<open>
  Each callback runs against the host as it is when the event arrives;
  \<open>OnDidRestartKernel\<close> carries \<open>kernel.notebookUri\<close>, and
  \<open>OnDidChangeNotebookCellExecutionState\<close> the change event and the cell as it is when
  \<open>handleExecute\<close> resumes.
\<close>

fun dispatch ::
  "('u \<Rightarrow> 'u \<Rightarrow> bool) \<Rightarrow> ('u NotebookDocument \<Rightarrow> bool) \<Rightarrow> ('u, 'n) NotebookWatcher
     \<Rightarrow> ('u, 'n) host \<times> ('u, 'n) subscription \<Rightarrow> ('u, 'n) NotebookWatcher"
where
  "dispatch arePathsSame isJupyterNotebook w (h, OnKernelStateChange e) =
     kernelStateChanged arePathsSame h w e"
| "dispatch arePathsSame isJupyterNotebook w (h, OnDidChangeActiveNotebookEditor editor) =
     activeEditorChanged arePathsSame w editor"
| "dispatch arePathsSame isJupyterNotebook w (h, OnDidCloseNotebookEditor editor) =
     notebookEditorClosed arePathsSame w editor"
| "dispatch arePathsSame isJupyterNotebook w (h, OnDidRestartKernel notebookUri_of_kernel) =
     handleRestart arePathsSame h w
       \<lparr>resource = notebookUri_of_kernel, state = restarted, cell = None, silent = None\<rparr>"
| "dispatch arePathsSame isJupyterNotebook w
       (h, OnDidChangeNotebookCellExecutionState c cellAfterAwait) =
     onDidChangeNotebookCellExecutionState arePathsSame isJupyterNotebook h w c cellAfterAwait"

text \<open>
  The tracker holds at most one entry per path: no entry's uri is the same path as the uri
  of an entry after it.
\<close>

definition onePerPath :: "('u \<Rightarrow> 'u \<Rightarrow> bool) \<Rightarrow> 'u IExecutionCountEntry list \<Rightarrow> bool" where
  "onePerPath arePathsSame tracker =
     sorted_wrt (\<lambda>value other. \<not> arePathsSame (uri value) (uri other)) tracker"

section \<open>HoverProvider (editor-integration/hoverProvider.ts)\<close>

text \<open>
  The provider's fields are \<open>runFiles\<close> (a JavaScript Set of strings: no duplicates,
  insertion order) and \<open>hoverProviderRegistration\<close>. Exceptions are values of an arbitrary
  type \<open>'x\<close>, disposables of an arbitrary type \<open>'d\<close>; a promise that rejects with \<open>exc\<close> is
  \<open>Inl exc\<close>, one that resolves is \<open>Inr\<close>.
\<close>

record ICell =
  cell_file :: string

text \<open>
  Modelled from the spec: \<open>traceError\<close> (common/logger.ts) is best-effort logging; it
  appends the exception to a log, here the field \<open>traceErrorLog\<close>, and returns.
\<close>

record ('d, 'x) HoverProvider =
  runFiles :: "string list"
  hoverProviderRegistration :: "'d option"
  traceErrorLog :: "'x list"

definition runFiles_add :: "string \<Rightarrow> string list \<Rightarrow> string list" where
  "runFiles_add s files = (if s \<in> set files then files else files @ [s])"

definition dispose :: "('d, 'x) HoverProvider \<Rightarrow> 'd list" where
  "dispose hp = (case hoverProviderRegistration hp of None \<Rightarrow> [] | Some d \<Rightarrow> [d])"

definition onKernelRestarted :: "('d, 'x) HoverProvider \<Rightarrow> ('d, 'x) HoverProvider" where
  "onKernelRestarted hp = hp\<lparr>runFiles := []\<rparr>"

text \<open>
  \<open>registerHoverProvider\<close> is what \<open>vscode.languages.registerHoverProvider(PYTHON, this)\<close>
  does when called: it throws (\<open>Inl\<close>) or returns a disposable.
\<close>

definition initializeHoverProvider ::
  "'x + 'd \<Rightarrow> ('d, 'x) HoverProvider \<Rightarrow> 'x + ('d, 'x) HoverProvider"
where
  "initializeHoverProvider registerHoverProvider hp =
     (case hoverProviderRegistration hp of
        Some _ \<Rightarrow> Inr hp
      | None \<Rightarrow>
          (case registerHoverProvider of
             Inl exc \<Rightarrow> Inl exc
           | Inr d \<Rightarrow> Inr (hp\<lparr>hoverProviderRegistration := Some d\<rparr>)))"

text \<open>
  The body of the try block. \<open>EmptyFileName\<close> is the constant \<open>Identifiers.EmptyFileName\<close>;
  \<open>toLocaleLowerCase\<close> computes the set's key from \<open>cell.file\<close> and, like every call in
  the block, may throw. A throw leaves the fields as they are at that point.
\<close>

definition preExecute_try ::
  "string \<Rightarrow> (string \<Rightarrow> 'x + string) \<Rightarrow> 'x + 'd \<Rightarrow> ('d, 'x) HoverProvider \<Rightarrow> ICell \<Rightarrow> bool
     \<Rightarrow> ('x + unit) \<times> ('d, 'x) HoverProvider"
where
  "preExecute_try EmptyFileName toLocaleLowerCase registerHoverProvider hp c isSilent =
     (if \<not> isSilent \<and> cell_file c \<noteq> [] \<and> cell_file c \<noteq> EmptyFileName then
        (case toLocaleLowerCase (cell_file c) of
           Inl exc \<Rightarrow> (Inl exc, hp)
         | Inr key \<Rightarrow>
             let size = length (runFiles hp);
                 hp1 = hp\<lparr>runFiles := runFiles_add key (runFiles hp)\<rparr>
             in if size \<noteq> length (runFiles hp1) then
                  (case initializeHoverProvider registerHoverProvider hp1 of
                     Inl exc \<Rightarrow> (Inl exc, hp1)
                   | Inr hp2 \<Rightarrow> (Inr (), hp2))
                else (Inr (), hp1))
      else (Inr (), hp))"

definition preExecute ::
  "string \<Rightarrow> (string \<Rightarrow> 'x + string) \<Rightarrow> 'x + 'd \<Rightarrow> ('d, 'x) HoverProvider \<Rightarrow> ICell \<Rightarrow> bool
     \<Rightarrow> ('x + unit) \<times> ('d, 'x) HoverProvider"
where
  "preExecute EmptyFileName toLocaleLowerCase registerHoverProvider hp c isSilent =
     (case preExecute_try EmptyFileName toLocaleLowerCase registerHoverProvider hp c isSilent of
        (Inl exc, hp1) \<Rightarrow> (Inr (), hp1\<lparr>traceErrorLog := traceErrorLog hp1 @ [exc]\<rparr>)
      | (Inr r, hp1) \<Rightarrow> (Inr r, hp1))"

definition postExecute ::
  "('d, 'x) HoverProvider \<Rightarrow> ICell \<Rightarrow> bool \<Rightarrow> ('x + unit) \<times> ('d, 'x) HoverProvider"
where
  "postExecute hp c isSilent = (Inr (), hp)"

text \<open>
  A promise is an object; what it settles to is not known when \<open>provideHover\<close> returns.
  \<open>ProviderResult\<close> follows vscode's type: a hover, \<open>undefined\<close>, \<open>null\<close>, or a thenable of
  these.
\<close>

datatype ('x, 'v) settlement = Pending | Fulfilled 'v | Rejected 'x

datatype ('x, 'hover) ProviderResult =
    Undefined
  | Null
  | Hover 'hover
  | Thenable "('x, 'hover option) settlement"

text \<open>JavaScript's \<open>!!v\<close>: \<open>undefined\<close> and \<open>null\<close> are falsy, every object is truthy.\<close>

fun truthy :: "('x, 'hover) ProviderResult \<Rightarrow> bool" where
  "truthy Undefined = False"
| "truthy Null = False"
| "truthy (Hover _) = True"
| "truthy (Thenable _) = True"

record 'e sendTelemetryEvent_call =
  eventName :: 'e
  durationMs :: nat
  isResultNull :: bool

text \<open>
  \<open>provideHover\<close> returns the promise made by \<open>Promise.race\<close> and calls
  \<open>sendTelemetryEvent\<close> once; the call is returned with the result. The stop watch's reading
  \<open>elapsedTime\<close> and the settlement \<open>race\<close> of the promise (decided later, by the timer and
  the variable lookup) are given by the host.
\<close>

definition provideHover ::
  "'e \<Rightarrow> nat \<Rightarrow> ('x, 'hover option) settlement
     \<Rightarrow> ('x, 'hover) ProviderResult \<times> 'e sendTelemetryEvent_call"
where
  "provideHover InteractiveFileTooltipsPerf elapsedTime race =
     (let result = Thenable race
      in (result,
          \<lparr>eventName = InteractiveFileTooltipsPerf, durationMs = elapsedTime,
           isResultNull = truthy result\<rparr>))"

section \<open>Example inputs\<close>

definition executedEvent :: "string \<Rightarrow> int option \<Rightarrow> string KernelStateEventArgs" where
  "executedEvent u order =
     \<lparr>resource = u, state = executed,
      cell = Some \<lparr>notebook_of_cell = \<lparr>document_uri = u\<rparr>,
                   executionSummary = Some \<lparr>executionOrder = order\<rparr>\<rparr>,
      silent = Some False\<rparr>"

definition restartedEvent :: "string \<Rightarrow> string KernelStateEventArgs" where
  "restartedEvent u = \<lparr>resource = u, state = restarted, cell = None, silent = None\<rparr>"

text \<open>
  A host whose active notebook editor shows a.ipynb, and whose active text editor s.py owns
  an interactive window with notebook uri iw-1.
\<close>

definition exampleHost :: "(string, nat) host" where
  "exampleHost =
     \<lparr>activeEditor = Some \<lparr>editor_file = ''a.ipynb'', notebook = Some 1\<rparr>,
      activeTextEditor = Some ''s.py'',
      interactiveWindowProvider_get =
        (\<lambda>d. if d = ''s.py'' then Some \<lparr>notebookUri = Some ''iw-1''\<rparr> else None),
      notebookDocuments = [\<lparr>document_uri = ''a.ipynb''\<rparr>, \<lparr>document_uri = ''iw-1''\<rparr>],
      kernelProvider_get =
        (\<lambda>d. if document_uri d = ''iw-1'' then Some \<lparr>kernel_notebook = Some 2\<rparr> else None)\<rparr>"

definition exampleTracker :: "string IExecutionCountEntry list" where
  "exampleTracker =
     [\<lparr>uri = ''a.ipynb'', executionCount = 3\<rparr>, \<lparr>uri = ''b.ipynb'', executionCount = 5\<rparr>]"

definition exampleWatcher :: "(string, nat) NotebookWatcher" where
  "exampleWatcher = initialWatcher\<lparr>executionCountTracker := exampleTracker\<rparr>"

section \<open>Lemmas about the execution-count tracker\<close>

lemma equivp_same_left: "equivp R \<Longrightarrow> R a b \<Longrightarrow> R a x = R b x"
  by (metis equivp_def)

lemma find_assignFirst_agree:
  "(\<And>v. P v = Q v) \<Longrightarrow> (\<And>v. P (v\<lparr>executionCount := n\<rparr>) = P v) \<Longrightarrow>
   find P (assignFirst Q n t) = map_option (\<lambda>v. v\<lparr>executionCount := n\<rparr>) (find P t)"
  by (induction t) auto

lemma find_assignFirst_disjoint:
  "(\<And>v. Q v \<Longrightarrow> \<not> P v) \<Longrightarrow> (\<And>v. P (v\<lparr>executionCount := n\<rparr>) = P v) \<Longrightarrow>
   find P (assignFirst Q n t) = find P t"
  by (induction t) auto

lemma find_append_miss: "\<not> P x \<Longrightarrow> find P (t @ [x]) = find P t"
  by (induction t) auto

lemma find_append_hit: "find P t = None \<Longrightarrow> P x \<Longrightarrow> find P (t @ [x]) = Some x"
  by (induction t) (auto split: if_splits)

lemma count_after_update_same:
  assumes eq: "equivp arePathsSame" and s: "arePathsSame u' u"
  shows "map_option executionCount
           (getExecutionCount arePathsSame (updateExecutionCount arePathsSame t u n) u') = Some n"
proof -
  have agree: "\<And>v. arePathsSame u' (uri v) = arePathsSame u (uri v)"
    using equivp_same_left [OF eq s] by simp
  have refl: "arePathsSame u' u" by (rule s)
  show ?thesis
  proof (cases "getExecutionCount arePathsSame t u")
    case None
    then have "find (\<lambda>v. arePathsSame u' (uri v)) t = None"
      by (simp add: getExecutionCount_def agree)
    then show ?thesis using None s
      by (simp add: updateExecutionCount_def getExecutionCount_def find_append_hit)
  next
    case (Some v)
    then obtain v' where "find (\<lambda>v. arePathsSame u' (uri v)) t = Some v'"
      by (simp add: getExecutionCount_def agree)
    then show ?thesis using Some
      by (simp add: updateExecutionCount_def getExecutionCount_def
            find_assignFirst_agree [where P = "\<lambda>v. arePathsSame u' (uri v)", OF agree])
  qed
qed

lemma count_after_update_other:
  assumes eq: "equivp arePathsSame" and s: "\<not> arePathsSame u' u"
  shows "getExecutionCount arePathsSame (updateExecutionCount arePathsSame t u n) u'
           = getExecutionCount arePathsSame t u'"
proof -
  have disj: "\<And>v. arePathsSame u (uri v) \<Longrightarrow> \<not> arePathsSame u' (uri v)"
    using eq s by (metis equivp_def)
  show ?thesis
  proof (cases "getExecutionCount arePathsSame t u")
    case None
    then show ?thesis using s
      by (simp add: updateExecutionCount_def getExecutionCount_def find_append_miss)
  next
    case (Some v)
    then show ?thesis
      by (simp add: updateExecutionCount_def getExecutionCount_def
            find_assignFirst_disjoint [where P = "\<lambda>v. arePathsSame u' (uri v)", OF disj])
  qed
qed

lemma tracker_handleExecute:
  "executionCountTracker (handleExecute arePathsSame h w e afterAwait) =
     (if isNonSilentExecution e
      then updateExecutionCount arePathsSame (executionCountTracker w) (resource e)
             (the (cellExecutionOrder e))
      else executionCountTracker w)"
  by (auto simp: handleExecute_def isNonSilentExecution_def Let_def split: option.splits)

lemma assignFirst_split:
  "find P t = Some v \<Longrightarrow>
   \<exists>before after. t = before @ v # after \<and> list_all (\<lambda>x. \<not> P x) before \<and> P v \<and>
      assignFirst P n t = before @ v\<lparr>executionCount := n\<rparr> # after"
proof (induction t)
  case Nil
  then show ?case by simp
next
  case (Cons x t)
  show ?case
  proof (cases "P x")
    case True
    with Cons.prems have "x = v" by simp
    with True have "x # t = [] @ v # t \<and> list_all (\<lambda>x. \<not> P x) [] \<and> P v \<and>
        assignFirst P n (x # t) = [] @ v\<lparr>executionCount := n\<rparr> # t" by simp
    then show ?thesis by blast
  next
    case False
    with Cons.prems have "find P t = Some v" by simp
    from Cons.IH [OF this] obtain before after where
      *: "t = before @ v # after" "list_all (\<lambda>x. \<not> P x) before" "P v"
         "assignFirst P n t = before @ v\<lparr>executionCount := n\<rparr> # after" by blast
    with False have "x # t = (x # before) @ v # after \<and> list_all (\<lambda>x. \<not> P x) (x # before) \<and> P v \<and>
        assignFirst P n (x # t) = (x # before) @ v\<lparr>executionCount := n\<rparr> # after" by simp
    then show ?thesis by blast
  qed
qed

lemma count_after_handleExecute_other:
  assumes eq: "equivp arePathsSame"
    and other: "isNonSilentExecution e \<longrightarrow> \<not> arePathsSame u (resource e)"
  shows "getExecutionCount arePathsSame
           (executionCountTracker (handleExecute arePathsSame h w e afterAwait)) u
           = getExecutionCount arePathsSame (executionCountTracker w) u"
  using other by (simp add: tracker_handleExecute count_after_update_other [OF eq])

lemma count_after_handleExecute_same:
  assumes eq: "equivp arePathsSame"
    and ns: "isNonSilentExecution e" and s: "arePathsSame u (resource e)"
  shows "map_option executionCount
           (getExecutionCount arePathsSame
              (executionCountTracker (handleExecute arePathsSame h w e afterAwait)) u)
           = cellExecutionOrder e"
proof -
  from ns obtain n where n: "cellExecutionOrder e = Some n"
    by (auto simp: isNonSilentExecution_def split: option.splits if_splits)
  show ?thesis using ns n
    by (simp add: tracker_handleExecute count_after_update_same [OF eq s])
qed

lemma count_after_executes_other:
  assumes eq: "equivp arePathsSame"
  shows "list_all (\<lambda>(h, e, a). isNonSilentExecution e \<longrightarrow> \<not> arePathsSame u (resource e)) es \<Longrightarrow>
     getExecutionCount arePathsSame
       (executionCountTracker (foldl (\<lambda>w (h, e, a). handleExecute arePathsSame h w e a) w es)) u
     = getExecutionCount arePathsSame (executionCountTracker w) u"
proof (induction es arbitrary: w)
  case Nil
  then show ?case by simp
next
  case (Cons x es)
  obtain h e a where x: "x = (h, e, a)" by (cases x)
  from Cons.prems x have "isNonSilentExecution e \<longrightarrow> \<not> arePathsSame u (resource e)" by simp
  from count_after_handleExecute_other [OF eq this] Cons.IH Cons.prems x
  show ?case by simp
qed

lemma uri_assignFirst: "map uri (assignFirst P n t) = map uri t"
  by (induction t) auto

lemma onePerPath_map_uri:
  "onePerPath arePathsSame t = sorted_wrt (\<lambda>a b. \<not> arePathsSame a b) (map uri t)"
  by (simp add: onePerPath_def sorted_wrt_map)

lemma onePerPath_update:
  assumes eq: "equivp arePathsSame" and inv: "onePerPath arePathsSame t"
  shows "onePerPath arePathsSame (updateExecutionCount arePathsSame t u n)"
proof (cases "getExecutionCount arePathsSame t u")
  case None
  then have "\<forall>v\<in>set t. \<not> arePathsSame u (uri v)"
    by (simp add: getExecutionCount_def find_None_iff)
  then have "\<forall>v\<in>set t. \<not> arePathsSame (uri v) u"
    using eq by (metis equivp_symp)
  with inv None show ?thesis
    by (simp add: updateExecutionCount_def onePerPath_def sorted_wrt_append)
next
  case (Some v)
  with inv show ?thesis
    by (simp add: updateExecutionCount_def onePerPath_map_uri uri_assignFirst)
qed

lemma onePerPath_delete:
  "onePerPath arePathsSame t \<Longrightarrow> onePerPath arePathsSame (deleteExecutionCount arePathsSame t u)"
  by (simp add: onePerPath_def deleteExecutionCount_def sorted_wrt_filter)

lemma tracker_handleRestart:
  "executionCountTracker (handleRestart arePathsSame h w e) =
     deleteExecutionCount arePathsSame (executionCountTracker w) (resource e)"
  by (simp add: handleRestart_def Let_def)

lemma tracker_notebookEditorClosed:
  "executionCountTracker (notebookEditorClosed arePathsSame w editor) =
     deleteExecutionCount arePathsSame (executionCountTracker w) (editor_file editor)"
  by (simp add: notebookEditorClosed_def)

lemma tracker_activeEditorChanged:
  "executionCountTracker (activeEditorChanged arePathsSame w editor) = executionCountTracker w"
  by (simp add: activeEditorChanged_def Let_def)

lemma onePerPath_dispatch:
  assumes eq: "equivp arePathsSame" and inv: "onePerPath arePathsSame (executionCountTracker w)"
  shows "onePerPath arePathsSame (executionCountTracker (dispatch arePathsSame isJupyterNotebook w x))"
proof -
  obtain h ev where x: "x = (h, ev)" by (cases x)
  have ex: "\<And>e a. onePerPath arePathsSame
                   (executionCountTracker (handleExecute arePathsSame h w e a))"
    using inv by (simp add: tracker_handleExecute onePerPath_update [OF eq])
  have re: "\<And>e. onePerPath arePathsSame (executionCountTracker (handleRestart arePathsSame h w e))"
    using inv by (simp add: tracker_handleRestart onePerPath_delete)
  show ?thesis
  proof (cases ev)
    case (OnKernelStateChange e)
    then show ?thesis using x inv re
      by (cases "state e") (simp_all add: kernelStateChanged_def)
  next
    case (OnDidChangeActiveNotebookEditor editor)
    then show ?thesis using x inv by (simp add: tracker_activeEditorChanged)
  next
    case (OnDidCloseNotebookEditor editor)
    then show ?thesis using x inv by (simp add: tracker_notebookEditorClosed onePerPath_delete)
  next
    case (OnDidRestartKernel u)
    then show ?thesis using x re by simp
  next
    case (OnDidChangeNotebookCellExecutionState c cellAfterAwait)
    then show ?thesis using x inv ex
      by (simp add: onDidChangeNotebookCellExecutionState_def)
  qed
qed

lemma onePerPath_run:
  assumes eq: "equivp arePathsSame"
  shows "onePerPath arePathsSame (executionCountTracker w) \<Longrightarrow>
         onePerPath arePathsSame
           (executionCountTracker (foldl (dispatch arePathsSame isJupyterNotebook) w evs))"
proof (induction evs arbitrary: w)
  case Nil
  then show ?case by simp
next
  case (Cons x evs)
  from onePerPath_dispatch [OF eq Cons.prems] have
    "onePerPath arePathsSame (executionCountTracker (dispatch arePathsSame isJupyterNotebook w x))" .
  from Cons.IH [OF this] show ?case by simp
qed

lemma onePerPath_pairwise:
  assumes eq: "equivp arePathsSame"
  shows "onePerPath arePathsSame t \<longleftrightarrow>
     (\<forall>i < length t. \<forall>j < length t. i \<noteq> j \<longrightarrow> \<not> arePathsSame (uri (t ! i)) (uri (t ! j)))"
proof
  assume inv: "onePerPath arePathsSame t"
  show "\<forall>i < length t. \<forall>j < length t. i \<noteq> j \<longrightarrow> \<not> arePathsSame (uri (t ! i)) (uri (t ! j))"
  proof (intro allI impI)
    fix i j assume ij: "i < length t" "j < length t" "i \<noteq> j"
    have less: "\<And>a b. a < b \<Longrightarrow> b < length t \<Longrightarrow> \<not> arePathsSame (uri (t ! a)) (uri (t ! b))"
      using inv by (simp add: onePerPath_def sorted_wrt_iff_nth_less)
    show "\<not> arePathsSame (uri (t ! i)) (uri (t ! j))"
    proof (cases "i < j")
      case True
      with ij less show ?thesis by blast
    next
      case False
      with ij have "j < i" by simp
      with ij less have "\<not> arePathsSame (uri (t ! j)) (uri (t ! i))" by blast
      then show ?thesis using eq by (metis equivp_symp)
    qed
  qed
next
  assume "\<forall>i < length t. \<forall>j < length t. i \<noteq> j \<longrightarrow> \<not> arePathsSame (uri (t ! i)) (uri (t ! j))"
  then show "onePerPath arePathsSame t"
    by (simp add: onePerPath_def sorted_wrt_iff_nth_less)
qed

lemma filter_assignFirst:
  "(\<And>v. Q v \<Longrightarrow> \<not> P v) \<Longrightarrow> (\<And>v. P (v\<lparr>executionCount := n\<rparr>) = P v) \<Longrightarrow>
   filter P (assignFirst Q n t) = filter P t"
  by (induction t) auto

lemma filter_update_others:
  assumes eq: "equivp arePathsSame"
  shows "filter (\<lambda>v. \<not> arePathsSame u (uri v)) (updateExecutionCount arePathsSame t u n) =
   filter (\<lambda>v. \<not> arePathsSame u (uri v)) t"
proof (cases "getExecutionCount arePathsSame t u")
  case None
  have "arePathsSame u u" using eq by (simp add: equivp_reflp)
  with None show ?thesis by (simp add: updateExecutionCount_def)
next
  case (Some v)
  have "filter (\<lambda>v. \<not> arePathsSame u (uri v))
          (assignFirst (\<lambda>v. arePathsSame u (uri v)) n t) =
        filter (\<lambda>v. \<not> arePathsSame u (uri v)) t"
    by (rule filter_assignFirst) simp_all
  with Some show ?thesis by (simp add: updateExecutionCount_def)
qed

lemma find_filter_implied: "(\<And>v. P v \<Longrightarrow> Q v) \<Longrightarrow> find P (filter Q t) = find P t"
  by (induction t) auto

lemma count_after_delete_other:
  assumes eq: "equivp arePathsSame" and s: "\<not> arePathsSame u' u"
  shows "getExecutionCount arePathsSame (deleteExecutionCount arePathsSame t u) u'
           = getExecutionCount arePathsSame t u'"
proof -
  have imp: "\<And>v. arePathsSame u' (uri v) \<Longrightarrow> \<not> arePathsSame u (uri v)"
    using eq s by (metis equivp_def)
  have "find (\<lambda>v. arePathsSame u' (uri v)) (filter (\<lambda>v. \<not> arePathsSame u (uri v)) t) =
        find (\<lambda>v. arePathsSame u' (uri v)) t"
    by (rule find_filter_implied) (rule imp)
  then show ?thesis
    by (simp add: deleteExecutionCount_def getExecutionCount_def)
qed

lemma isActiveNotebookEvent_iff:
  "isActiveNotebookEvent arePathsSame h e \<longleftrightarrow>
     (\<exists>editor. activeEditor h = Some editor \<and> arePathsSame (editor_file editor) (resource e)) \<or>
     (\<exists>textDocumentUri window nu.
        activeTextEditor h = Some textDocumentUri \<and>
        interactiveWindowProvider_get h textDocumentUri = Some window \<and>
        notebookUri window = Some nu \<and> arePathsSame nu (resource e))"
  by (auto simp: isActiveNotebookEvent_def getActiveInteractiveWindow_def split: option.splits)

lemma activeInteractiveWindow_notebookUri:
  "Option.bind (getActiveInteractiveWindow h) notebookUri = Some nu \<longleftrightarrow>
     (\<exists>textDocumentUri window.
        activeTextEditor h = Some textDocumentUri \<and>
        interactiveWindowProvider_get h textDocumentUri = Some window \<and>
        notebookUri window = Some nu)"
  by (auto simp: getActiveInteractiveWindow_def Option.bind_eq_Some_conv split: option.splits)

lemma getActiveInteractiveWindowNotebook_Some:
  "getActiveInteractiveWindowNotebook toString h = Some n \<longleftrightarrow>
     (\<exists>textDocumentUri window nu notebookDocument kernel.
        activeTextEditor h = Some textDocumentUri \<and>
        interactiveWindowProvider_get h textDocumentUri = Some window \<and>
        notebookUri window = Some nu \<and>
        find (\<lambda>d. toString (document_uri d) = toString nu) (notebookDocuments h) =
          Some notebookDocument \<and>
        kernelProvider_get h notebookDocument = Some kernel \<and>
        kernel_notebook kernel = Some n)"
proof (cases "Option.bind (getActiveInteractiveWindow h) notebookUri")
  case None
  have "find (\<lambda>d. False) (notebookDocuments h) = None" by (simp add: find_None_iff)
  with None have lhs: "getActiveInteractiveWindowNotebook toString h = None"
    by (simp add: getActiveInteractiveWindowNotebook_def Let_def)
  from None have "\<And>nu. Option.bind (getActiveInteractiveWindow h) notebookUri \<noteq> Some nu" by simp
  then have "\<not> (\<exists>textDocumentUri window nu.
        activeTextEditor h = Some textDocumentUri \<and>
        interactiveWindowProvider_get h textDocumentUri = Some window \<and>
        notebookUri window = Some nu)"
    unfolding activeInteractiveWindow_notebookUri by blast
  then have "\<not> (\<exists>textDocumentUri window nu notebookDocument kernel.
        activeTextEditor h = Some textDocumentUri \<and>
        interactiveWindowProvider_get h textDocumentUri = Some window \<and>
        notebookUri window = Some nu \<and>
        find (\<lambda>d. toString (document_uri d) = toString nu) (notebookDocuments h) =
          Some notebookDocument \<and>
        kernelProvider_get h notebookDocument = Some kernel \<and>
        kernel_notebook kernel = Some n)" by blast
  with lhs show ?thesis by simp
next
  case (Some nu)
  then have lhs: "getActiveInteractiveWindowNotebook toString h =
      (case find (\<lambda>d. toString (document_uri d) = toString nu) (notebookDocuments h) of
         None \<Rightarrow> None
       | Some d \<Rightarrow> Option.bind (kernelProvider_get h d) kernel_notebook)"
    by (simp add: getActiveInteractiveWindowNotebook_def Let_def)
  from Some obtain textDocumentUri window where
    w: "activeTextEditor h = Some textDocumentUri"
       "interactiveWindowProvider_get h textDocumentUri = Some window"
       "notebookUri window = Some nu"
    unfolding activeInteractiveWindow_notebookUri by blast
  show ?thesis
    unfolding lhs using w
    by (auto simp: Option.bind_eq_Some_conv split: option.splits)
qed

section \<open>Properties\<close>

text \<open>
  C1: when \<open>arePathsSame\<close> is an equivalence relation, after any sequence of executed-cell
  events, handled from any state of the watcher, the tracker gives for a uri \<open>u\<close> the
  execution order of the last non-silent execution whose resource is the same path as \<open>u\<close>
  (the events after it may be silent ones, or non-silent ones for other paths), and
  what it gave before when the sequence has no such event. \<open>updateExecutionCount\<close> appends a new entry
  when \<open>getExecutionCount\<close> finds none, and otherwise overwrites the count of the first entry
  with the same path and leaves the rest as it is; \<open>getExecutionCount\<close> then returns the
  new value.
\<close>

theorem tracker_mirrors_last_execution:
  assumes eq: "equivp arePathsSame"
  shows
   "(isNonSilentExecution e \<and> arePathsSame u (resource e) \<and>
     list_all (\<lambda>(h', e', a'). isNonSilentExecution e' \<longrightarrow> \<not> arePathsSame u (resource e')) later \<longrightarrow>
       map_option executionCount
         (getExecutionCount arePathsSame
            (executionCountTracker
               (foldl (\<lambda>w (h, e, a). handleExecute arePathsSame h w e a) w (earlier @ (h, e, a) # later))) u)
       = cellExecutionOrder e)
    \<and> (list_all (\<lambda>(h', e', a'). isNonSilentExecution e' \<longrightarrow> \<not> arePathsSame u (resource e')) es \<longrightarrow>
         getExecutionCount arePathsSame
           (executionCountTracker (foldl (\<lambda>w (h, e, a). handleExecute arePathsSame h w e a) w es)) u
         = getExecutionCount arePathsSame (executionCountTracker w) u)
    \<and> (getExecutionCount arePathsSame t u = None \<longrightarrow>
         updateExecutionCount arePathsSame t u n = t @ [\<lparr>uri = u, executionCount = n\<rparr>])
    \<and> (\<forall>v. getExecutionCount arePathsSame t u = Some v \<longrightarrow>
         (\<exists>before after. t = before @ v # after \<and>
            list_all (\<lambda>x. \<not> arePathsSame u (uri x)) before \<and> arePathsSame u (uri v) \<and>
            updateExecutionCount arePathsSame t u n =
              before @ v\<lparr>executionCount := n\<rparr> # after))
    \<and> map_option executionCount
         (getExecutionCount arePathsSame (updateExecutionCount arePathsSame t u n) u) = Some n"
proof (intro conjI impI allI)
  assume a: "isNonSilentExecution e \<and> arePathsSame u (resource e) \<and>
     list_all (\<lambda>(h', e', a'). isNonSilentExecution e' \<longrightarrow> \<not> arePathsSame u (resource e')) later"
  let ?run = "foldl (\<lambda>w (h, e, a). handleExecute arePathsSame h w e a)"
  have "?run w (earlier @ (h, e, a) # later) =
          ?run (handleExecute arePathsSame h (?run w earlier) e a) later" by simp
  then show "map_option executionCount
         (getExecutionCount arePathsSame
            (executionCountTracker (?run w (earlier @ (h, e, a) # later))) u)
       = cellExecutionOrder e"
    using a count_after_executes_other [OF eq, of u later]
      count_after_handleExecute_same [OF eq, of e u]
    by simp
next
  assume "list_all (\<lambda>(h', e', a'). isNonSilentExecution e' \<longrightarrow> \<not> arePathsSame u (resource e')) es"
  then show "getExecutionCount arePathsSame
           (executionCountTracker (foldl (\<lambda>w (h, e, a). handleExecute arePathsSame h w e a) w es)) u
         = getExecutionCount arePathsSame (executionCountTracker w) u"
    by (rule count_after_executes_other [OF eq])
next
  assume "getExecutionCount arePathsSame t u = None"
  then show "updateExecutionCount arePathsSame t u n = t @ [\<lparr>uri = u, executionCount = n\<rparr>]"
    by (simp add: updateExecutionCount_def)
next
  fix v assume v: "getExecutionCount arePathsSame t u = Some v"
  then have "find (\<lambda>x. arePathsSame u (uri x)) t = Some v" by (simp add: getExecutionCount_def)
  from assignFirst_split [OF this, of n] v
  show "\<exists>before after. t = before @ v # after \<and>
            list_all (\<lambda>x. \<not> arePathsSame u (uri x)) before \<and> arePathsSame u (uri v) \<and>
            updateExecutionCount arePathsSame t u n =
              before @ v\<lparr>executionCount := n\<rparr> # after"
    by (simp add: updateExecutionCount_def)
next
  have "arePathsSame u u" using eq by (simp add: equivp_reflp)
  from count_after_update_same [OF eq this]
  show "map_option executionCount
         (getExecutionCount arePathsSame (updateExecutionCount arePathsSame t u n) u) = Some n" .
qed

theorem tracker_mirrors_last_execution_witness:
  "equivp ((=) :: string \<Rightarrow> string \<Rightarrow> bool)
   \<and> isNonSilentExecution (executedEvent ''a.ipynb'' (Some 2))
   \<and> list_all (\<lambda>(h', e', a'). isNonSilentExecution e' \<longrightarrow> ''a.ipynb'' \<noteq> resource e')
        [(exampleHost, executedEvent ''b.ipynb'' (Some 7), executedEvent ''b.ipynb'' (Some 7))]
   \<and> map_option executionCount
        (getExecutionCount (=)
           (executionCountTracker
              (foldl (\<lambda>w (h, e, a). handleExecute (=) h w e a) initialWatcher
                 ([(exampleHost, executedEvent ''a.ipynb'' (Some 1), executedEvent ''a.ipynb'' (Some 1))] @
                  (exampleHost, executedEvent ''a.ipynb'' (Some 2), executedEvent ''a.ipynb'' (Some 2)) #
                  [(exampleHost, executedEvent ''b.ipynb'' (Some 7), executedEvent ''b.ipynb'' (Some 7))]))) ''a.ipynb'')
      = Some 2"
proof -
  have eq: "equivp ((=) :: string \<Rightarrow> string \<Rightarrow> bool)" by (rule identity_equivp)
  have ns: "isNonSilentExecution (executedEvent ''a.ipynb'' (Some 2))"
    by (simp add: isNonSilentExecution_def executedEvent_def cellExecutionOrder_def)
  have later: "list_all (\<lambda>(h', e', a'). isNonSilentExecution e' \<longrightarrow> ''a.ipynb'' \<noteq> resource e')
        [(exampleHost, executedEvent ''b.ipynb'' (Some 7), executedEvent ''b.ipynb'' (Some 7))]"
    by (simp add: executedEvent_def)
  have order: "cellExecutionOrder (executedEvent ''a.ipynb'' (Some 2)) = Some 2"
    by (simp add: executedEvent_def cellExecutionOrder_def)
  have res: "''a.ipynb'' = resource (executedEvent ''a.ipynb'' (Some 2))"
    by (simp add: executedEvent_def)
  from tracker_mirrors_last_execution [OF eq, THEN conjunct1, rule_format,
      where e = "executedEvent ''a.ipynb'' (Some 2)" and u = "''a.ipynb''"
        and later = "[(exampleHost, executedEvent ''b.ipynb'' (Some 7), executedEvent ''b.ipynb'' (Some 7))]"
        and w = initialWatcher
        and earlier = "[(exampleHost, executedEvent ''a.ipynb'' (Some 1), executedEvent ''a.ipynb'' (Some 1))]"
        and h = exampleHost and a = "executedEvent ''a.ipynb'' (Some 2)"]
    ns later res order
  have "map_option executionCount
        (getExecutionCount (=)
           (executionCountTracker
              (foldl (\<lambda>w (h, e, a). handleExecute (=) h w e a) initialWatcher
                 ([(exampleHost, executedEvent ''a.ipynb'' (Some 1), executedEvent ''a.ipynb'' (Some 1))] @
                  (exampleHost, executedEvent ''a.ipynb'' (Some 2), executedEvent ''a.ipynb'' (Some 2)) #
                  [(exampleHost, executedEvent ''b.ipynb'' (Some 7), executedEvent ''b.ipynb'' (Some 7))]))) ''a.ipynb'')
      = Some 2" by simp
  with eq ns later show ?thesis by blast
qed

text \<open>
  C2: the \<open>activeNotebook\<close> getter prefers the notebook editor: when the active editor has
  a notebook, that notebook is returned; when there is no active editor or it has no
  notebook, the result is that of the interactive window lookup, which is a notebook exactly
  when the active text editor's document uri has an interactive window with a notebook uri,
  the first workspace notebook document with that uri (compared as strings) has a kernel, and
  the kernel has that notebook; when neither gives a notebook the result is \<open>undefined\<close>.
\<close>

theorem activeNotebook_prefers_editor:
  "(\<forall>editor n. activeEditor h = Some editor \<and> notebook editor = Some n \<longrightarrow>
      activeNotebook toString h = Some n)
   \<and> (Option.bind (activeEditor h) notebook = None \<longrightarrow>
        activeNotebook toString h = getActiveInteractiveWindowNotebook toString h)
   \<and> (\<forall>n. getActiveInteractiveWindowNotebook toString h = Some n \<longleftrightarrow>
        (\<exists>textDocumentUri window nu notebookDocument kernel.
           activeTextEditor h = Some textDocumentUri \<and>
           interactiveWindowProvider_get h textDocumentUri = Some window \<and>
           notebookUri window = Some nu \<and>
           find (\<lambda>d. toString (document_uri d) = toString nu) (notebookDocuments h) =
             Some notebookDocument \<and>
           kernelProvider_get h notebookDocument = Some kernel \<and>
           kernel_notebook kernel = Some n))
   \<and> (Option.bind (activeEditor h) notebook = None \<and>
      getActiveInteractiveWindowNotebook toString h = None \<longrightarrow>
        activeNotebook toString h = None)"
proof (intro conjI allI impI)
  fix editor n
  assume "activeEditor h = Some editor \<and> notebook editor = Some n"
  then show "activeNotebook toString h = Some n" by (simp add: activeNotebook_def)
next
  assume "Option.bind (activeEditor h) notebook = None"
  then show "activeNotebook toString h = getActiveInteractiveWindowNotebook toString h"
    by (simp add: activeNotebook_def)
next
  fix n
  show "getActiveInteractiveWindowNotebook toString h = Some n \<longleftrightarrow>
        (\<exists>textDocumentUri window nu notebookDocument kernel.
           activeTextEditor h = Some textDocumentUri \<and>
           interactiveWindowProvider_get h textDocumentUri = Some window \<and>
           notebookUri window = Some nu \<and>
           find (\<lambda>d. toString (document_uri d) = toString nu) (notebookDocuments h) =
             Some notebookDocument \<and>
           kernelProvider_get h notebookDocument = Some kernel \<and>
           kernel_notebook kernel = Some n)"
    by (rule getActiveInteractiveWindowNotebook_Some)
next
  assume "Option.bind (activeEditor h) notebook = None \<and>
      getActiveInteractiveWindowNotebook toString h = None"
  then show "activeNotebook toString h = None" by (simp add: activeNotebook_def)
qed

theorem activeNotebook_prefers_editor_witness:
  "activeEditor exampleHost = Some \<lparr>editor_file = ''a.ipynb'', notebook = Some 1\<rparr>
   \<and> activeNotebook id exampleHost = Some 1
   \<and> Option.bind (activeEditor (exampleHost\<lparr>activeEditor := None\<rparr>)) notebook = None
   \<and> activeNotebook id (exampleHost\<lparr>activeEditor := None\<rparr>) = Some 2
   \<and> getActiveInteractiveWindowNotebook id
        (exampleHost\<lparr>activeEditor := None, activeTextEditor := None\<rparr>) = None
   \<and> activeNotebook id (exampleHost\<lparr>activeEditor := None, activeTextEditor := None\<rparr>) = None"
proof -
  let ?h1 = "exampleHost\<lparr>activeEditor := None\<rparr>"
  let ?h2 = "exampleHost\<lparr>activeEditor := None, activeTextEditor := None\<rparr>"
  have e: "activeEditor exampleHost = Some \<lparr>editor_file = ''a.ipynb'', notebook = Some 1\<rparr>"
    by (simp add: exampleHost_def)
  then have e': "activeEditor exampleHost = Some \<lparr>editor_file = ''a.ipynb'', notebook = Some 1\<rparr>
      \<and> notebook \<lparr>editor_file = ''a.ipynb'', notebook = Some (1::nat)\<rparr> = Some 1" by simp
  from activeNotebook_prefers_editor [of exampleHost id, THEN conjunct1, rule_format, OF e']
  have a: "activeNotebook id exampleHost = Some 1" .
  have n1: "Option.bind (activeEditor ?h1) notebook = None" by simp
  have iw: "\<exists>textDocumentUri window nu notebookDocument kernel.
           activeTextEditor ?h1 = Some textDocumentUri \<and>
           interactiveWindowProvider_get ?h1 textDocumentUri = Some window \<and>
           notebookUri window = Some nu \<and>
           find (\<lambda>d. id (document_uri d) = id nu) (notebookDocuments ?h1) = Some notebookDocument \<and>
           kernelProvider_get ?h1 notebookDocument = Some kernel \<and>
           kernel_notebook kernel = Some 2"
    by (simp add: exampleHost_def)
  from activeNotebook_prefers_editor [of ?h1 id, THEN conjunct2, THEN conjunct1, rule_format, OF n1]
    activeNotebook_prefers_editor [of ?h1 id, THEN conjunct2, THEN conjunct2, THEN conjunct1,
      rule_format, of 2] iw
  have b: "activeNotebook id ?h1 = Some 2" by simp
  have n2: "Option.bind (activeEditor ?h2) notebook = None" by simp
  have g2: "getActiveInteractiveWindowNotebook id ?h2 = None"
    by (simp add: getActiveInteractiveWindowNotebook_def getActiveInteractiveWindow_def
          exampleHost_def)
  from activeNotebook_prefers_editor [of ?h2 id, THEN conjunct2, THEN conjunct2, THEN conjunct2,
      rule_format] n2 g2
  have c: "activeNotebook id ?h2 = None" by simp
  from e a n1 b g2 c show ?thesis by blast
qed

text \<open>
  C3: \<open>handleRestart\<close> for an event with resource \<open>u\<close> keeps exactly the tracker entries
  whose uri is not the same path as \<open>u\<close>, so that no entry for \<open>u\<close> is left, and it fires
  \<open>onDidRestartActiveNotebook\<close> once if and only if \<open>u\<close> is the same path as the active
  editor's file, or else as the notebook uri of the active interactive window; no other
  emitter fires.
\<close>

theorem handleRestart_deletes_and_notifies:
  "executionCountTracker (handleRestart arePathsSame h w e) =
     filter (\<lambda>v. \<not> arePathsSame (resource e) (uri v)) (executionCountTracker w)
   \<and> list_all (\<lambda>v. \<not> arePathsSame (resource e) (uri v))
       (executionCountTracker (handleRestart arePathsSame h w e))
   \<and> getExecutionCount arePathsSame
       (executionCountTracker (handleRestart arePathsSame h w e)) (resource e) = None
   \<and> onDidRestartActiveNotebook (handleRestart arePathsSame h w e) =
       (if (\<exists>editor. activeEditor h = Some editor \<and>
                     arePathsSame (editor_file editor) (resource e)) \<or>
           (\<exists>textDocumentUri window nu.
              activeTextEditor h = Some textDocumentUri \<and>
              interactiveWindowProvider_get h textDocumentUri = Some window \<and>
              notebookUri window = Some nu \<and> arePathsSame nu (resource e))
        then Suc (onDidRestartActiveNotebook w) else onDidRestartActiveNotebook w)
   \<and> onDidExecuteActiveNotebook (handleRestart arePathsSame h w e) = onDidExecuteActiveNotebook w
   \<and> onDidChangeActiveNotebook (handleRestart arePathsSame h w e) = onDidChangeActiveNotebook w"
proof -
  have t: "executionCountTracker (handleRestart arePathsSame h w e) =
     filter (\<lambda>v. \<not> arePathsSame (resource e) (uri v)) (executionCountTracker w)"
    by (simp add: tracker_handleRestart deleteExecutionCount_def)
  have a: "list_all (\<lambda>v. \<not> arePathsSame (resource e) (uri v))
       (executionCountTracker (handleRestart arePathsSame h w e))"
    by (simp add: t list_all_iff)
  have g: "getExecutionCount arePathsSame
       (executionCountTracker (handleRestart arePathsSame h w e)) (resource e) = None"
    by (simp add: t getExecutionCount_def find_None_iff)
  have f: "onDidRestartActiveNotebook (handleRestart arePathsSame h w e) =
       (if isActiveNotebookEvent arePathsSame h e
        then Suc (onDidRestartActiveNotebook w) else onDidRestartActiveNotebook w)"
    by (simp add: handleRestart_def Let_def)
  have o: "onDidExecuteActiveNotebook (handleRestart arePathsSame h w e) = onDidExecuteActiveNotebook w"
     "onDidChangeActiveNotebook (handleRestart arePathsSame h w e) = onDidChangeActiveNotebook w"
    by (simp_all add: handleRestart_def Let_def)
  from t a g f o show ?thesis
    unfolding isActiveNotebookEvent_iff by simp
qed

theorem handleRestart_deletes_and_notifies_witness:
  "executionCountTracker (handleRestart (=) exampleHost exampleWatcher (restartedEvent ''a.ipynb''))
     = [\<lparr>uri = ''b.ipynb'', executionCount = 5\<rparr>]
   \<and> onDidRestartActiveNotebook
       (handleRestart (=) exampleHost exampleWatcher (restartedEvent ''a.ipynb'')) = 1
   \<and> onDidRestartActiveNotebook
       (handleRestart (=) exampleHost exampleWatcher (restartedEvent ''iw-1'')) = 1
   \<and> executionCountTracker (handleRestart (=) exampleHost exampleWatcher (restartedEvent ''b.ipynb''))
     = [\<lparr>uri = ''a.ipynb'', executionCount = 3\<rparr>]
   \<and> onDidRestartActiveNotebook
       (handleRestart (=) exampleHost exampleWatcher (restartedEvent ''b.ipynb'')) = 0"
  using handleRestart_deletes_and_notifies [of "(=)" exampleHost exampleWatcher "restartedEvent ''a.ipynb''"]
    handleRestart_deletes_and_notifies [of "(=)" exampleHost exampleWatcher "restartedEvent ''b.ipynb''"]
    handleRestart_deletes_and_notifies [of "(=)" exampleHost exampleWatcher "restartedEvent ''iw-1''"]
  by (simp add: exampleHost_def exampleWatcher_def exampleTracker_def initialWatcher_def
        restartedEvent_def)

text \<open>
  C4: \<open>handleExecute\<close> fires \<open>onDidExecuteActiveNotebook\<close> exactly when the event is
  a non-silent execution, its resource is the same path as the active editor's file or as
  the notebook uri of the active interactive window, and the cell's execution order is
  still defined when the handler resumes after its await; it fires once, and the payload is
  the order read then, which is the order stored in the tracker whenever the cell has not
  changed in between. The tracker is updated with the order read before the await whether
  or not the notebook is active; for a notebook that is not active the watcher changes by
  the tracker update alone. No other emitter fires.
\<close>

theorem handleExecute_fires_for_active_notebook:
  "onDidExecuteActiveNotebook (handleExecute arePathsSame h w e afterAwait) =
     (if isNonSilentExecution e \<and>
         ((\<exists>editor. activeEditor h = Some editor \<and>
                    arePathsSame (editor_file editor) (resource e)) \<or>
          (\<exists>textDocumentUri window nu.
             activeTextEditor h = Some textDocumentUri \<and>
             interactiveWindowProvider_get h textDocumentUri = Some window \<and>
             notebookUri window = Some nu \<and> arePathsSame nu (resource e)))
      then (case cellExecutionOrder afterAwait of
              Some n \<Rightarrow> onDidExecuteActiveNotebook w @ [n]
            | None \<Rightarrow> onDidExecuteActiveNotebook w)
      else onDidExecuteActiveNotebook w)
   \<and> (cellExecutionOrder afterAwait = cellExecutionOrder e \<longrightarrow>
        onDidExecuteActiveNotebook (handleExecute arePathsSame h w e afterAwait) =
          (if isNonSilentExecution e \<and>
              ((\<exists>editor. activeEditor h = Some editor \<and>
                         arePathsSame (editor_file editor) (resource e)) \<or>
               (\<exists>textDocumentUri window nu.
                  activeTextEditor h = Some textDocumentUri \<and>
                  interactiveWindowProvider_get h textDocumentUri = Some window \<and>
                  notebookUri window = Some nu \<and> arePathsSame nu (resource e)))
           then onDidExecuteActiveNotebook w @ [the (cellExecutionOrder e)]
           else onDidExecuteActiveNotebook w))
   \<and> (isNonSilentExecution e \<longrightarrow> cellExecutionOrder e \<noteq> None)
   \<and> executionCountTracker (handleExecute arePathsSame h w e afterAwait) =
       (if isNonSilentExecution e
        then updateExecutionCount arePathsSame (executionCountTracker w) (resource e)
               (the (cellExecutionOrder e))
        else executionCountTracker w)
   \<and> (isNonSilentExecution e \<and>
      \<not> ((\<exists>editor. activeEditor h = Some editor \<and>
                   arePathsSame (editor_file editor) (resource e)) \<or>
         (\<exists>textDocumentUri window nu.
            activeTextEditor h = Some textDocumentUri \<and>
            interactiveWindowProvider_get h textDocumentUri = Some window \<and>
            notebookUri window = Some nu \<and> arePathsSame nu (resource e))) \<longrightarrow>
        handleExecute arePathsSame h w e afterAwait =
          w\<lparr>executionCountTracker :=
               updateExecutionCount arePathsSame (executionCountTracker w) (resource e)
                 (the (cellExecutionOrder e))\<rparr>)
   \<and> onDidRestartActiveNotebook (handleExecute arePathsSame h w e afterAwait) =
       onDidRestartActiveNotebook w
   \<and> onDidChangeActiveNotebook (handleExecute arePathsSame h w e afterAwait) =
       onDidChangeActiveNotebook w"
proof -
  have ns: "isNonSilentExecution e \<longrightarrow> cellExecutionOrder e \<noteq> None"
    by (auto simp: isNonSilentExecution_def split: option.splits if_splits)
  have fired: "onDidExecuteActiveNotebook (handleExecute arePathsSame h w e afterAwait) =
     (if isNonSilentExecution e \<and> isActiveNotebookEvent arePathsSame h e
      then (case cellExecutionOrder afterAwait of
              Some n \<Rightarrow> onDidExecuteActiveNotebook w @ [n]
            | None \<Rightarrow> onDidExecuteActiveNotebook w)
      else onDidExecuteActiveNotebook w)"
    by (simp add: handleExecute_def Let_def split: option.splits)
  have stable: "cellExecutionOrder afterAwait = cellExecutionOrder e \<longrightarrow>
        onDidExecuteActiveNotebook (handleExecute arePathsSame h w e afterAwait) =
          (if isNonSilentExecution e \<and> isActiveNotebookEvent arePathsSame h e
           then onDidExecuteActiveNotebook w @ [the (cellExecutionOrder e)]
           else onDidExecuteActiveNotebook w)"
    using ns by (auto simp: fired split: option.splits)
  have quiet: "isNonSilentExecution e \<and> \<not> isActiveNotebookEvent arePathsSame h e \<longrightarrow>
        handleExecute arePathsSame h w e afterAwait =
          w\<lparr>executionCountTracker :=
               updateExecutionCount arePathsSame (executionCountTracker w) (resource e)
                 (the (cellExecutionOrder e))\<rparr>"
    using ns by (auto simp: handleExecute_def Let_def split: option.splits)
  have others: "onDidRestartActiveNotebook (handleExecute arePathsSame h w e afterAwait) =
       onDidRestartActiveNotebook w"
    "onDidChangeActiveNotebook (handleExecute arePathsSame h w e afterAwait) =
       onDidChangeActiveNotebook w"
    by (simp_all add: handleExecute_def Let_def split: option.splits)
  from fired stable ns quiet others tracker_handleExecute [of arePathsSame h w e afterAwait]
  show ?thesis unfolding isActiveNotebookEvent_iff by simp
qed

theorem handleExecute_fires_for_active_notebook_witness:
  "isNonSilentExecution (executedEvent ''a.ipynb'' (Some 4))
   \<and> onDidExecuteActiveNotebook
       (handleExecute (=) exampleHost exampleWatcher
          (executedEvent ''a.ipynb'' (Some 4)) (executedEvent ''a.ipynb'' (Some 4))) = [4]
   \<and> onDidExecuteActiveNotebook
       (handleExecute (=) exampleHost exampleWatcher
          (executedEvent ''iw-1'' (Some 2)) (executedEvent ''iw-1'' (Some 2))) = [2]
   \<and> onDidExecuteActiveNotebook
       (handleExecute (=) (exampleHost\<lparr>activeEditor := None\<rparr>) exampleWatcher
          (executedEvent ''iw-1'' (Some 2)) (executedEvent ''iw-1'' (Some 2))) = [2]
   \<and> onDidExecuteActiveNotebook
       (handleExecute (=) (exampleHost\<lparr>activeEditor := None\<rparr>) exampleWatcher
          (executedEvent ''a.ipynb'' (Some 4)) (executedEvent ''a.ipynb'' (Some 4))) = []
   \<and> onDidExecuteActiveNotebook
       (handleExecute (=) exampleHost exampleWatcher
          (executedEvent ''a.ipynb'' (Some 4)) (executedEvent ''a.ipynb'' (Some 99))) = [99]
   \<and> executionCountTracker
       (handleExecute (=) exampleHost exampleWatcher
          (executedEvent ''a.ipynb'' (Some 4)) (executedEvent ''a.ipynb'' (Some 99))) =
       [\<lparr>uri = ''a.ipynb'', executionCount = 4\<rparr>, \<lparr>uri = ''b.ipynb'', executionCount = 5\<rparr>]
   \<and> handleExecute (=) exampleHost exampleWatcher
       (executedEvent ''b.ipynb'' (Some 6)) (executedEvent ''b.ipynb'' (Some 6)) =
       exampleWatcher\<lparr>executionCountTracker :=
         [\<lparr>uri = ''a.ipynb'', executionCount = 3\<rparr>, \<lparr>uri = ''b.ipynb'', executionCount = 6\<rparr>]\<rparr>"
proof -
  have ns: "\<And>u n. n \<noteq> 0 \<Longrightarrow> isNonSilentExecution (executedEvent u (Some n))"
    by (simp add: isNonSilentExecution_def executedEvent_def cellExecutionOrder_def)
  have order: "\<And>u x. cellExecutionOrder (executedEvent u x) = x"
    by (simp add: executedEvent_def cellExecutionOrder_def)
  have res: "\<And>u x. resource (executedEvent u x) = u"
    by (simp add: executedEvent_def)
  have w0: "onDidExecuteActiveNotebook exampleWatcher = []"
    by (simp add: exampleWatcher_def initialWatcher_def)
  have t0: "executionCountTracker exampleWatcher = exampleTracker"
    by (simp add: exampleWatcher_def)
  have upa: "updateExecutionCount (=) exampleTracker ''a.ipynb'' 4 =
      [\<lparr>uri = ''a.ipynb'', executionCount = 4\<rparr>, \<lparr>uri = ''b.ipynb'', executionCount = 5\<rparr>]"
    and upb: "updateExecutionCount (=) exampleTracker ''b.ipynb'' 6 =
      [\<lparr>uri = ''a.ipynb'', executionCount = 3\<rparr>, \<lparr>uri = ''b.ipynb'', executionCount = 6\<rparr>]"
    by (simp_all add: updateExecutionCount_def getExecutionCount_def exampleTracker_def)
  have ed: "activeEditor exampleHost = Some \<lparr>editor_file = ''a.ipynb'', notebook = Some 1\<rparr>"
    and te: "activeTextEditor exampleHost = Some ''s.py''"
    and iw: "interactiveWindowProvider_get exampleHost ''s.py'' = Some \<lparr>notebookUri = Some ''iw-1''\<rparr>"
    by (simp_all add: exampleHost_def)
  have c1: "onDidExecuteActiveNotebook
       (handleExecute (=) exampleHost exampleWatcher
          (executedEvent ''a.ipynb'' (Some 4)) (executedEvent ''a.ipynb'' (Some 4))) = [4]"
    using handleExecute_fires_for_active_notebook
      [where arePathsSame = "(=)" and h = exampleHost and w = exampleWatcher
         and e = "executedEvent ''a.ipynb'' (Some 4)"
         and afterAwait = "executedEvent ''a.ipynb'' (Some 4)", THEN conjunct1]
    by (simp add: ns order res w0 ed)
  have c2: "onDidExecuteActiveNotebook
       (handleExecute (=) exampleHost exampleWatcher
          (executedEvent ''iw-1'' (Some 2)) (executedEvent ''iw-1'' (Some 2))) = [2]"
    using handleExecute_fires_for_active_notebook
      [where arePathsSame = "(=)" and h = exampleHost and w = exampleWatcher
         and e = "executedEvent ''iw-1'' (Some 2)"
         and afterAwait = "executedEvent ''iw-1'' (Some 2)", THEN conjunct1]
    by (simp add: ns order res w0 ed te iw)
  have c3: "onDidExecuteActiveNotebook
       (handleExecute (=) (exampleHost\<lparr>activeEditor := None\<rparr>) exampleWatcher
          (executedEvent ''iw-1'' (Some 2)) (executedEvent ''iw-1'' (Some 2))) = [2]"
    using handleExecute_fires_for_active_notebook
      [where arePathsSame = "(=)" and h = "exampleHost\<lparr>activeEditor := None\<rparr>"
         and w = exampleWatcher
         and e = "executedEvent ''iw-1'' (Some 2)"
         and afterAwait = "executedEvent ''iw-1'' (Some 2)", THEN conjunct1]
    by (simp add: ns order res w0 te iw)
  have c4: "onDidExecuteActiveNotebook
       (handleExecute (=) (exampleHost\<lparr>activeEditor := None\<rparr>) exampleWatcher
          (executedEvent ''a.ipynb'' (Some 4)) (executedEvent ''a.ipynb'' (Some 4))) = []"
    using handleExecute_fires_for_active_notebook
      [where arePathsSame = "(=)" and h = "exampleHost\<lparr>activeEditor := None\<rparr>"
         and w = exampleWatcher
         and e = "executedEvent ''a.ipynb'' (Some 4)"
         and afterAwait = "executedEvent ''a.ipynb'' (Some 4)", THEN conjunct1]
    by (simp add: ns order res w0 te iw)
  note t99 = handleExecute_fires_for_active_notebook
      [where arePathsSame = "(=)" and h = exampleHost and w = exampleWatcher
         and e = "executedEvent ''a.ipynb'' (Some 4)"
         and afterAwait = "executedEvent ''a.ipynb'' (Some 99)"]
  have c5: "onDidExecuteActiveNotebook
       (handleExecute (=) exampleHost exampleWatcher
          (executedEvent ''a.ipynb'' (Some 4)) (executedEvent ''a.ipynb'' (Some 99))) = [99]"
    using t99 [THEN conjunct1] by (simp add: ns order res w0 ed)
  have c6: "executionCountTracker
       (handleExecute (=) exampleHost exampleWatcher
          (executedEvent ''a.ipynb'' (Some 4)) (executedEvent ''a.ipynb'' (Some 99))) =
       [\<lparr>uri = ''a.ipynb'', executionCount = 4\<rparr>, \<lparr>uri = ''b.ipynb'', executionCount = 5\<rparr>]"
    using t99 [THEN conjunct2, THEN conjunct2, THEN conjunct2, THEN conjunct1]
    by (simp add: ns order res t0 upa)
  have c7: "handleExecute (=) exampleHost exampleWatcher
       (executedEvent ''b.ipynb'' (Some 6)) (executedEvent ''b.ipynb'' (Some 6)) =
       exampleWatcher\<lparr>executionCountTracker :=
         [\<lparr>uri = ''a.ipynb'', executionCount = 3\<rparr>, \<lparr>uri = ''b.ipynb'', executionCount = 6\<rparr>]\<rparr>"
    using handleExecute_fires_for_active_notebook
      [where arePathsSame = "(=)" and h = exampleHost and w = exampleWatcher
         and e = "executedEvent ''b.ipynb'' (Some 6)"
         and afterAwait = "executedEvent ''b.ipynb'' (Some 6)",
       THEN conjunct2, THEN conjunct2, THEN conjunct2, THEN conjunct2, THEN conjunct1]
    by (simp add: ns order res t0 upb ed te iw)
  from ns [of 4 "''a.ipynb''"] c1 c2 c3 c4 c5 c6 c7 show ?thesis by simp
qed

text \<open>
  The test after the await matters: when the cell's execution order is cleared while the
  handler awaits, nothing fires, although the event was a non-silent execution on the active
  notebook.
\<close>

theorem handleExecute_cleared_order_counterexample:
  "isNonSilentExecution (executedEvent ''a.ipynb'' (Some 4))
   \<and> isActiveNotebookEvent (=) exampleHost (executedEvent ''a.ipynb'' (Some 4))
   \<and> onDidExecuteActiveNotebook exampleWatcher = []
   \<and> onDidExecuteActiveNotebook
       (handleExecute (=) exampleHost exampleWatcher
          (executedEvent ''a.ipynb'' (Some 4)) (executedEvent ''a.ipynb'' None)) = []"
  by (simp add: handleExecute_def isNonSilentExecution_def isActiveNotebookEvent_def
        cellExecutionOrder_def executedEvent_def exampleHost_def exampleWatcher_def
        initialWatcher_def Let_def)

text \<open>
  C5: \<open>preExecute\<close> resolves for every cell and silent flag, whatever the calls in its try
  block do: an exception thrown there is appended to the trace log and not propagated,
  both when computing the key for the file set throws and when registering the hover
  provider throws. \<open>postExecute\<close> resolves and returns the provider unchanged.
\<close>

theorem preExecute_never_rejects:
  "fst (preExecute EmptyFileName toLocaleLowerCase registerHoverProvider hp c isSilent) = Inr ()
   \<and> (\<forall>exc hp1.
        preExecute_try EmptyFileName toLocaleLowerCase registerHoverProvider hp c isSilent
          = (Inl exc, hp1) \<longrightarrow>
        preExecute EmptyFileName toLocaleLowerCase registerHoverProvider hp c isSilent
          = (Inr (), hp1\<lparr>traceErrorLog := traceErrorLog hp1 @ [exc]\<rparr>))
   \<and> (\<forall>hp1.
        preExecute_try EmptyFileName toLocaleLowerCase registerHoverProvider hp c isSilent
          = (Inr (), hp1) \<longrightarrow>
        preExecute EmptyFileName toLocaleLowerCase registerHoverProvider hp c isSilent
          = (Inr (), hp1))
   \<and> (\<not> isSilent \<and> cell_file c \<noteq> [] \<and> cell_file c \<noteq> EmptyFileName \<and>
      toLocaleLowerCase (cell_file c) = Inl exc \<longrightarrow>
        preExecute EmptyFileName toLocaleLowerCase registerHoverProvider hp c isSilent
          = (Inr (), hp\<lparr>traceErrorLog := traceErrorLog hp @ [exc]\<rparr>))
   \<and> (\<not> isSilent \<and> cell_file c \<noteq> [] \<and> cell_file c \<noteq> EmptyFileName \<and>
      toLocaleLowerCase (cell_file c) = Inr key \<and> key \<notin> set (runFiles hp) \<and>
      hoverProviderRegistration hp = None \<and> registerHoverProvider = Inl exc \<longrightarrow>
        preExecute EmptyFileName toLocaleLowerCase registerHoverProvider hp c isSilent
          = (Inr (), hp\<lparr>runFiles := runFiles hp @ [key],
                           traceErrorLog := traceErrorLog hp @ [exc]\<rparr>))
   \<and> postExecute hp c isSilent = (Inr (), hp)"
proof (intro conjI allI impI)
  show "fst (preExecute EmptyFileName toLocaleLowerCase registerHoverProvider hp c isSilent) = Inr ()"
    by (simp add: preExecute_def split: prod.splits sum.splits)
next
  fix exc hp1
  assume "preExecute_try EmptyFileName toLocaleLowerCase registerHoverProvider hp c isSilent
          = (Inl exc, hp1)"
  then show "preExecute EmptyFileName toLocaleLowerCase registerHoverProvider hp c isSilent
          = (Inr (), hp1\<lparr>traceErrorLog := traceErrorLog hp1 @ [exc]\<rparr>)"
    by (simp add: preExecute_def)
next
  fix hp1
  assume "preExecute_try EmptyFileName toLocaleLowerCase registerHoverProvider hp c isSilent
          = (Inr (), hp1)"
  then show "preExecute EmptyFileName toLocaleLowerCase registerHoverProvider hp c isSilent
          = (Inr (), hp1)"
    by (simp add: preExecute_def)
next
  assume "\<not> isSilent \<and> cell_file c \<noteq> [] \<and> cell_file c \<noteq> EmptyFileName \<and>
      toLocaleLowerCase (cell_file c) = Inl exc"
  then show "preExecute EmptyFileName toLocaleLowerCase registerHoverProvider hp c isSilent
          = (Inr (), hp\<lparr>traceErrorLog := traceErrorLog hp @ [exc]\<rparr>)"
    by (simp add: preExecute_def preExecute_try_def)
next
  assume "\<not> isSilent \<and> cell_file c \<noteq> [] \<and> cell_file c \<noteq> EmptyFileName \<and>
      toLocaleLowerCase (cell_file c) = Inr key \<and> key \<notin> set (runFiles hp) \<and>
      hoverProviderRegistration hp = None \<and> registerHoverProvider = Inl exc"
  then show "preExecute EmptyFileName toLocaleLowerCase registerHoverProvider hp c isSilent
          = (Inr (), hp\<lparr>runFiles := runFiles hp @ [key],
                           traceErrorLog := traceErrorLog hp @ [exc]\<rparr>)"
    by (simp add: preExecute_def preExecute_try_def runFiles_add_def Let_def
          initializeHoverProvider_def)
next
  show "postExecute hp c isSilent = (Inr (), hp)" by (simp add: postExecute_def)
qed

theorem preExecute_never_rejects_witness:
  "preExecute ''empty'' (\<lambda>s. Inl ''TypeError'') (Inr (1::nat))
     \<lparr>runFiles = [], hoverProviderRegistration = None, traceErrorLog = []\<rparr>
     \<lparr>cell_file = ''Foo.py''\<rparr> False
     = (Inr (), \<lparr>runFiles = [], hoverProviderRegistration = None,
                  traceErrorLog = [''TypeError'']\<rparr>)
   \<and> preExecute ''empty'' (\<lambda>s. Inr s) (Inl ''registration failed'' :: string + nat)
       \<lparr>runFiles = [], hoverProviderRegistration = None, traceErrorLog = []\<rparr>
       \<lparr>cell_file = ''foo.py''\<rparr> False
     = (Inr (), \<lparr>runFiles = [''foo.py''], hoverProviderRegistration = None,
                  traceErrorLog = [''registration failed'']\<rparr>)"
proof -
  let ?hp = "\<lparr>runFiles = [], hoverProviderRegistration = None :: nat option,
              traceErrorLog = [] :: string list\<rparr>"
  have a: "preExecute ''empty'' (\<lambda>s. Inl ''TypeError'') (Inr (1::nat)) ?hp
             \<lparr>cell_file = ''Foo.py''\<rparr> False
           = (Inr (), ?hp\<lparr>traceErrorLog := traceErrorLog ?hp @ [''TypeError'']\<rparr>)"
    using preExecute_never_rejects
      [where isSilent = False and c = "\<lparr>cell_file = ''Foo.py''\<rparr>" and EmptyFileName = "''empty''"
          and toLocaleLowerCase = "\<lambda>s. Inl ''TypeError''" and exc = "''TypeError''"
          and registerHoverProvider = "Inr (1::nat)" and hp = ?hp,
       THEN conjunct2, THEN conjunct2, THEN conjunct2, THEN conjunct1]
    by simp
  have b: "preExecute ''empty'' (\<lambda>s. Inr s) (Inl ''registration failed'' :: string + nat) ?hp
             \<lparr>cell_file = ''foo.py''\<rparr> False
           = (Inr (), ?hp\<lparr>runFiles := runFiles ?hp @ [''foo.py''],
                           traceErrorLog := traceErrorLog ?hp @ [''registration failed'']\<rparr>)"
    using preExecute_never_rejects
      [where isSilent = False and c = "\<lparr>cell_file = ''foo.py''\<rparr>" and EmptyFileName = "''empty''"
          and toLocaleLowerCase = "\<lambda>s. Inr s" and exc = "''registration failed''"
          and key = "''foo.py''"
          and registerHoverProvider = "Inl ''registration failed'' :: string + nat" and hp = ?hp,
       THEN conjunct2, THEN conjunct2, THEN conjunct2, THEN conjunct2, THEN conjunct1]
    by simp
  from a b show ?thesis by simp
qed

text \<open>
  C7: when \<open>arePathsSame\<close> is an equivalence relation, \<open>updateExecutionCount\<close> and
  \<open>deleteExecutionCount\<close> for a uri \<open>u\<close> leave the entries whose uri is not the same path as
  \<open>u\<close> as they are, in number, order and content; so \<open>getExecutionCount\<close> for a uri \<open>u'\<close> of
  another path returns the same entry before and after an update or a deletion for \<open>u\<close>,
  the closing of an editor on \<open>u\<close>, and a restart for \<open>u\<close>.
\<close>

theorem tracker_changes_are_per_document:
  assumes eq: "equivp arePathsSame"
  shows
  "filter (\<lambda>v. \<not> arePathsSame u (uri v)) (updateExecutionCount arePathsSame t u n) =
     filter (\<lambda>v. \<not> arePathsSame u (uri v)) t
   \<and> filter (\<lambda>v. \<not> arePathsSame u (uri v)) (deleteExecutionCount arePathsSame t u) =
     filter (\<lambda>v. \<not> arePathsSame u (uri v)) t
   \<and> (\<not> arePathsSame u' u \<longrightarrow>
        getExecutionCount arePathsSame (updateExecutionCount arePathsSame t u n) u' =
          getExecutionCount arePathsSame t u' \<and>
        getExecutionCount arePathsSame (deleteExecutionCount arePathsSame t u) u' =
          getExecutionCount arePathsSame t u')
   \<and> (\<not> arePathsSame u' (editor_file editor) \<longrightarrow>
        getExecutionCount arePathsSame
          (executionCountTracker (notebookEditorClosed arePathsSame w editor)) u' =
        getExecutionCount arePathsSame (executionCountTracker w) u')
   \<and> (\<not> arePathsSame u' (resource e) \<longrightarrow>
        getExecutionCount arePathsSame
          (executionCountTracker (handleRestart arePathsSame h w e)) u' =
        getExecutionCount arePathsSame (executionCountTracker w) u')"
proof -
  have d: "filter (\<lambda>v. \<not> arePathsSame u (uri v)) (deleteExecutionCount arePathsSame t u) =
     filter (\<lambda>v. \<not> arePathsSame u (uri v)) t"
    by (simp add: deleteExecutionCount_def)
  show ?thesis
    by (simp add: filter_update_others [OF eq] d count_after_update_other [OF eq]
          count_after_delete_other [OF eq] tracker_notebookEditorClosed tracker_handleRestart)
qed

theorem tracker_changes_are_per_document_witness:
  "equivp ((=) :: string \<Rightarrow> string \<Rightarrow> bool)
   \<and> ''b.ipynb'' \<noteq> ''a.ipynb''
   \<and> getExecutionCount (=) (updateExecutionCount (=) exampleTracker ''a.ipynb'' 9) ''b.ipynb''
       = Some \<lparr>uri = ''b.ipynb'', executionCount = 5\<rparr>
   \<and> getExecutionCount (=) (deleteExecutionCount (=) exampleTracker ''a.ipynb'') ''b.ipynb''
       = Some \<lparr>uri = ''b.ipynb'', executionCount = 5\<rparr>
   \<and> getExecutionCount (=)
       (executionCountTracker
          (notebookEditorClosed (=) exampleWatcher
             \<lparr>editor_file = ''a.ipynb'', notebook = Some (1::nat)\<rparr>)) ''b.ipynb''
       = Some \<lparr>uri = ''b.ipynb'', executionCount = 5\<rparr>
   \<and> getExecutionCount (=)
       (executionCountTracker
          (handleRestart (=) exampleHost exampleWatcher (restartedEvent ''a.ipynb''))) ''b.ipynb''
       = Some \<lparr>uri = ''b.ipynb'', executionCount = 5\<rparr>"
proof -
  have eq: "equivp ((=) :: string \<Rightarrow> string \<Rightarrow> bool)" by (rule identity_equivp)
  have ne: "''b.ipynb'' \<noteq> ''a.ipynb''" by simp
  have g: "getExecutionCount (=) exampleTracker ''b.ipynb''
             = Some \<lparr>uri = ''b.ipynb'', executionCount = 5\<rparr>"
    by (simp add: getExecutionCount_def exampleTracker_def)
  have w: "executionCountTracker exampleWatcher = exampleTracker"
    by (simp add: exampleWatcher_def)
  note t = tracker_changes_are_per_document [OF eq, THEN conjunct2, THEN conjunct2]
  from t [THEN conjunct1, rule_format, of "''b.ipynb''" "''a.ipynb''" exampleTracker 9] ne g
  have a: "getExecutionCount (=) (updateExecutionCount (=) exampleTracker ''a.ipynb'' 9) ''b.ipynb''
       = Some \<lparr>uri = ''b.ipynb'', executionCount = 5\<rparr>
     \<and> getExecutionCount (=) (deleteExecutionCount (=) exampleTracker ''a.ipynb'') ''b.ipynb''
       = Some \<lparr>uri = ''b.ipynb'', executionCount = 5\<rparr>" by simp
  from t [THEN conjunct2, THEN conjunct1, rule_format,
          of "''b.ipynb''" "\<lparr>editor_file = ''a.ipynb'', notebook = Some (1::nat)\<rparr>" exampleWatcher]
    ne g w
  have b: "getExecutionCount (=)
       (executionCountTracker
          (notebookEditorClosed (=) exampleWatcher
             \<lparr>editor_file = ''a.ipynb'', notebook = Some (1::nat)\<rparr>)) ''b.ipynb''
       = Some \<lparr>uri = ''b.ipynb'', executionCount = 5\<rparr>" by simp
  from t [THEN conjunct2, THEN conjunct2, rule_format,
          of "''b.ipynb''" "restartedEvent ''a.ipynb''" exampleHost exampleWatcher]
    ne g w
  have c: "getExecutionCount (=)
       (executionCountTracker
          (handleRestart (=) exampleHost exampleWatcher (restartedEvent ''a.ipynb''))) ''b.ipynb''
       = Some \<lparr>uri = ''b.ipynb'', executionCount = 5\<rparr>"
    by (simp add: restartedEvent_def)
  from eq ne a b c show ?thesis by blast
qed

text \<open>
  C8: when \<open>arePathsSame\<close> is an equivalence relation, the tracker reached from the initial
  watcher by any sequence of callbacks, against any hosts, has no two entries at different
  positions whose uris are the same path; the empty tracker has the property, and
  \<open>updateExecutionCount\<close>, \<open>deleteExecutionCount\<close>, \<open>handleRestart\<close> and
  \<open>notebookEditorClosed\<close> each preserve it.
\<close>

theorem tracker_one_entry_per_path:
  assumes eq: "equivp arePathsSame"
  shows
   "(let t = executionCountTracker
               (foldl (dispatch arePathsSame isJupyterNotebook) initialWatcher evs)
     in \<forall>i < length t. \<forall>j < length t. i \<noteq> j \<longrightarrow> \<not> arePathsSame (uri (t ! i)) (uri (t ! j)))
    \<and> onePerPath arePathsSame
        (executionCountTracker (foldl (dispatch arePathsSame isJupyterNotebook) initialWatcher evs))
    \<and> onePerPath arePathsSame []
    \<and> (onePerPath arePathsSame (executionCountTracker w) \<longrightarrow>
         onePerPath arePathsSame
           (updateExecutionCount arePathsSame (executionCountTracker w) u n) \<and>
         onePerPath arePathsSame (deleteExecutionCount arePathsSame (executionCountTracker w) u) \<and>
         onePerPath arePathsSame (executionCountTracker (handleRestart arePathsSame h w e)) \<and>
         onePerPath arePathsSame (executionCountTracker (notebookEditorClosed arePathsSame w editor)))"
proof -
  have init: "onePerPath arePathsSame (executionCountTracker (initialWatcher :: ('a, 'b) NotebookWatcher))"
    by (simp add: initialWatcher_def onePerPath_def)
  have run: "onePerPath arePathsSame
        (executionCountTracker (foldl (dispatch arePathsSame isJupyterNotebook) initialWatcher evs))"
    by (rule onePerPath_run [OF eq init])
  have pair: "let t = executionCountTracker
               (foldl (dispatch arePathsSame isJupyterNotebook) initialWatcher evs)
     in \<forall>i < length t. \<forall>j < length t. i \<noteq> j \<longrightarrow> \<not> arePathsSame (uri (t ! i)) (uri (t ! j))"
    using run onePerPath_pairwise [OF eq] by (simp add: Let_def)
  have empty: "onePerPath arePathsSame []" by (simp add: onePerPath_def)
  have pres: "onePerPath arePathsSame (executionCountTracker w) \<longrightarrow>
         onePerPath arePathsSame
           (updateExecutionCount arePathsSame (executionCountTracker w) u n) \<and>
         onePerPath arePathsSame (deleteExecutionCount arePathsSame (executionCountTracker w) u) \<and>
         onePerPath arePathsSame (executionCountTracker (handleRestart arePathsSame h w e)) \<and>
         onePerPath arePathsSame (executionCountTracker (notebookEditorClosed arePathsSame w editor))"
    by (simp add: onePerPath_update [OF eq] onePerPath_delete tracker_handleRestart
          tracker_notebookEditorClosed)
  from pair run empty pres show ?thesis by blast
qed

theorem tracker_one_entry_per_path_witness:
  "equivp ((=) :: string \<Rightarrow> string \<Rightarrow> bool)
   \<and> onePerPath (=)
       (executionCountTracker
          (foldl (dispatch (=) (\<lambda>d. True)) (initialWatcher :: (string, nat) NotebookWatcher)
             [(exampleHost, OnDidChangeNotebookCellExecutionState
                 \<lparr>changed_cell = \<lparr>notebook_of_cell = \<lparr>document_uri = ''a.ipynb''\<rparr>,
                                  executionSummary = Some \<lparr>executionOrder = Some 1\<rparr>\<rparr>,
                  changed_state = Idle\<rparr>
                 \<lparr>notebook_of_cell = \<lparr>document_uri = ''a.ipynb''\<rparr>,
                  executionSummary = Some \<lparr>executionOrder = Some 1\<rparr>\<rparr>),
              (exampleHost, OnDidChangeNotebookCellExecutionState
                 \<lparr>changed_cell = \<lparr>notebook_of_cell = \<lparr>document_uri = ''a.ipynb''\<rparr>,
                                  executionSummary = Some \<lparr>executionOrder = Some 2\<rparr>\<rparr>,
                  changed_state = Idle\<rparr>
                 \<lparr>notebook_of_cell = \<lparr>document_uri = ''a.ipynb''\<rparr>,
                  executionSummary = None\<rparr>),
              (exampleHost, OnDidRestartKernel ''b.ipynb'')]))
   \<and> onePerPath (=) (executionCountTracker exampleWatcher)
   \<and> onePerPath (=) (updateExecutionCount (=) (executionCountTracker exampleWatcher) ''a.ipynb'' 9)
   \<and> onePerPath (=) (deleteExecutionCount (=) (executionCountTracker exampleWatcher) ''a.ipynb'')"
proof -
  have eq: "equivp ((=) :: string \<Rightarrow> string \<Rightarrow> bool)" by (rule identity_equivp)
  have inv: "onePerPath (=) (executionCountTracker exampleWatcher)"
    by (simp add: onePerPath_def exampleWatcher_def exampleTracker_def)
  note t = tracker_one_entry_per_path [OF eq]
  from t [THEN conjunct2, THEN conjunct1] t [THEN conjunct2, THEN conjunct2, THEN conjunct2,
      rule_format, OF inv] eq inv
  show ?thesis by blast
qed

text \<open>
  C9: an event whose cell has execution order 0 is not a non-silent execution, whatever
  its state and silent flag: handleExecute leaves the watcher as it was, so the tracker
  is not updated and onDidExecuteActiveNotebook does not fire.
\<close>

theorem zero_execution_order_ignored:
  assumes "cellExecutionOrder e = Some 0"
  shows "\<not> isNonSilentExecution e \<and> handleExecute arePathsSame h w e afterAwait = w"
  using assms by (simp add: isNonSilentExecution_def handleExecute_def)

theorem zero_execution_order_ignored_witness:
  "cellExecutionOrder
     \<lparr>resource = ''a.ipynb'', state = executed,
      cell = Some \<lparr>notebook_of_cell = \<lparr>document_uri = ''a.ipynb''\<rparr>,
                   executionSummary = Some \<lparr>executionOrder = Some 0\<rparr>\<rparr>,
      silent = Some False\<rparr> = Some 0
   \<and> handleExecute (=)
       \<lparr>activeEditor = Some \<lparr>editor_file = ''a.ipynb'', notebook = Some (1::nat)\<rparr>,
        activeTextEditor = None, interactiveWindowProvider_get = (\<lambda>_. None),
        notebookDocuments = [], kernelProvider_get = (\<lambda>_. None)\<rparr>
       (initialWatcher :: (string, nat) NotebookWatcher)
       \<lparr>resource = ''a.ipynb'', state = executed,
        cell = Some \<lparr>notebook_of_cell = \<lparr>document_uri = ''a.ipynb''\<rparr>,
                     executionSummary = Some \<lparr>executionOrder = Some 0\<rparr>\<rparr>,
        silent = Some False\<rparr>
       \<lparr>resource = ''a.ipynb'', state = executed,
        cell = Some \<lparr>notebook_of_cell = \<lparr>document_uri = ''a.ipynb''\<rparr>,
                     executionSummary = Some \<lparr>executionOrder = Some 0\<rparr>\<rparr>,
        silent = Some False\<rparr> = initialWatcher"
proof -
  let ?e = "\<lparr>resource = ''a.ipynb'', state = executed,
      cell = Some \<lparr>notebook_of_cell = \<lparr>document_uri = ''a.ipynb''\<rparr>,
                   executionSummary = Some \<lparr>executionOrder = Some 0\<rparr>\<rparr>,
      silent = Some False\<rparr>"
  have e0: "cellExecutionOrder ?e = Some 0" by (simp add: cellExecutionOrder_def)
  show ?thesis
    by (rule conjI, rule e0, rule conjunct2, rule zero_execution_order_ignored, rule e0)
qed

text \<open>
  C10: every call of \<open>provideHover\<close> sends the event \<open>InteractiveFileTooltipsPerf\<close> with
  \<open>isResultNull\<close> true, whatever the returned promise settles to, a hover or \<open>null\<close>: the
  flag is the truthiness of the promise object.
\<close>

theorem provideHover_isResultNull_always_true:
  "isResultNull (snd (provideHover InteractiveFileTooltipsPerf elapsedTime race)) = True
   \<and> eventName (snd (provideHover InteractiveFileTooltipsPerf elapsedTime race))
       = InteractiveFileTooltipsPerf
   \<and> fst (provideHover InteractiveFileTooltipsPerf elapsedTime race) = Thenable race
   \<and> isResultNull (snd (provideHover InteractiveFileTooltipsPerf elapsedTime (Fulfilled None)))
       = isResultNull (snd (provideHover InteractiveFileTooltipsPerf elapsedTime
                              (Fulfilled (Some hover))))"
  by (simp add: provideHover_def Let_def)

theorem provideHover_isResultNull_always_true_witness:
  "isResultNull (snd (provideHover ''DS_INTERNAL.INTERACTIVE_FILE_TOOLTIPS_PERF'' 0
      (Fulfilled (Some ''x: 1'') :: (string, string option) settlement)))
   \<and> isResultNull (snd (provideHover ''DS_INTERNAL.INTERACTIVE_FILE_TOOLTIPS_PERF'' 0
      (Fulfilled None :: (string, string option) settlement)))"
proof -
  from provideHover_isResultNull_always_true
         [where race = "Fulfilled (Some ''x: 1'') :: (string, string option) settlement"
            and InteractiveFileTooltipsPerf = "''DS_INTERNAL.INTERACTIVE_FILE_TOOLTIPS_PERF''"
            and elapsedTime = 0, THEN conjunct1]
       provideHover_isResultNull_always_true
         [where race = "Fulfilled None :: (string, string option) settlement"
            and InteractiveFileTooltipsPerf = "''DS_INTERNAL.INTERACTIVE_FILE_TOOLTIPS_PERF''"
            and elapsedTime = 0, THEN conjunct1]
  show ?thesis by simp
qed

end
